theory Spec2Isabelle
  imports Main "HOL-Library.AList" "HOL-Library.Finite_Map" "HOL-Library.Multiset"
begin

text \<open>
  A model of the reverse-download system: a coordinator that registers agents connecting
  over a WebSocket, triggers an agent to upload a local file to S3 through presigned
  multi-part URLs, and finalises the upload from the agent's response. The definitions
  follow the Go sources function by function; the properties are proved in the last
  section.
\<close>

section \<open>Common conventions\<close>

text \<open>
  Go's \<open>int\<close>, \<open>int64\<close> and \<open>time.Duration\<close> are 64-bit two's complement integers. They
  are modelled as \<open>int\<close>; where the source does arithmetic on them, the result is wrapped
  by \<open>wrap64\<close>, and the \<open>int32\<close> conversion of the S3 wrapper by \<open>to_int32\<close>.
  Go's division truncates towards zero (\<open>go_div\<close>, \<open>go_mod\<close>).
  An instant of \<open>time.Now()\<close> is a parameter of the function that reads the clock.
\<close>

type_synonym time = int

definition wrap64 :: "int \<Rightarrow> int" where
  "wrap64 x = (x + 2 ^ 63) mod 2 ^ 64 - 2 ^ 63"

definition to_int32 :: "int \<Rightarrow> int" where
  "to_int32 x = (x + 2 ^ 31) mod 2 ^ 32 - 2 ^ 31"

definition go_div :: "int \<Rightarrow> int \<Rightarrow> int" where
  "go_div a b = (if (a < 0) = (b < 0) then \<bar>a\<bar> div \<bar>b\<bar> else - (\<bar>a\<bar> div \<bar>b\<bar>))"

definition go_mod :: "int \<Rightarrow> int \<Rightarrow> int" where
  "go_mod a b = a - b * go_div a b"

text \<open>
  A failure of the source is a value: \<open>Err\<close> is a returned \<open>error\<close> with its text,
  \<open>Panic\<close> a run-time panic. Numbers that the source formats into an error text (a part
  number, a status code) are left out of the text; no caller reads them.
\<close>

datatype error = Err string | Panic string

text \<open>
  A value decoded by \<open>encoding/json\<close> into \<open>interface{}\<close>. An object is a Go
  \<open>map[string]interface{}\<close>; it is kept as the list of its entries, and a \<open>range\<close> loop
  over a Go map visits the entries in an order the runtime chooses: that order is a
  parameter (a function rearranging the entry list) of every function that ranges over a map.
  JSON numbers are restricted to integers.
\<close>

datatype json = JNull | JBool bool | JNum int | JStr string | JArr "json list"
  | JObj "(string \<times> json) list"

type_synonym 'a range_order = "'a list \<Rightarrow> 'a list"

definition is_iteration_order :: "'a range_order \<Rightarrow> bool" where
  "is_iteration_order ord = (\<forall>xs. mset (ord xs) = mset xs)"

section \<open>shared/models: protocol messages\<close>

definition CommandActionDownloadFile :: string where
  "CommandActionDownloadFile = ''download_file''"

definition CommandActionCancelUpload :: string where
  "CommandActionCancelUpload = ''cancel_upload''"

definition CommandActionHealthCheck :: string where
  "CommandActionHealthCheck = ''health_check''"

definition ResponseStatusSuccess :: string where
  "ResponseStatusSuccess = ''success''"

definition ResponseStatusError :: string where
  "ResponseStatusError = ''error''"

definition ResponseStatusInProgress :: string where
  "ResponseStatusInProgress = ''in_progress''"

definition ResponseStatusCancelled :: string where
  "ResponseStatusCancelled = ''cancelled''"

definition MessageTypeCommand :: string where
  "MessageTypeCommand = ''command''"

record PresignedURL =
  PartNumber :: int
  URL :: string

record UploadConfig =
  uc_UploadID :: string
  uc_Bucket :: string
  uc_Key :: string
  uc_Region :: string
  uc_ChunkSize :: int
  PresignedURLs :: "PresignedURL list"

record DownloadFilePayload =
  dp_FilePath :: string
  dp_UploadConfig :: UploadConfig
  dp_Metadata :: "(string \<times> string) list"

record CommandMessage =
  cmd_Type :: string
  cmd_Timestamp :: time
  MessageID :: string
  Action :: string
  Payload :: DownloadFilePayload

record ResponseMessage =
  rm_Status :: string
  CommandID :: string
  rm_Action :: string
  rm_Payload :: json
  rm_Error :: string

text \<open>\<open>sharedModels.UploadStatus\<close>, the progress snapshot of a Status frame (its
  floating-point \<open>Progress\<close> and its two time stamps are not read by the coordinator).\<close>

record CurrentUploadStatus =
  cu_UploadID :: string
  cu_FilePath :: string
  cu_FileSize :: int
  cu_TotalParts :: int
  cu_CompletedParts :: int
  cu_BytesUploaded :: int

record StatusMessage =
  sm_ClientID :: string
  sm_Status :: string
  CurrentUpload :: "CurrentUploadStatus option"

section \<open>server/models: connections and transfer records\<close>

type_synonym conn = nat

record ClientConnection =
  cc_ClientID :: string
  Connection :: conn
  ConnectedAt :: time
  LastHeartbeat :: time
  LastActivity :: time
  Metadata :: "(string, string) fmap"

definition NewClientConnection :: "string \<Rightarrow> conn \<Rightarrow> time \<Rightarrow> ClientConnection" where
  "NewClientConnection clientID c now =
     \<lparr>cc_ClientID = clientID, Connection = c, ConnectedAt = now, LastHeartbeat = now,
      LastActivity = now, Metadata = fmempty\<rparr>"

definition UpdateActivity :: "ClientConnection \<Rightarrow> time \<Rightarrow> ClientConnection" where
  "UpdateActivity c now = c\<lparr>LastActivity := now\<rparr>"

datatype UploadState = UploadStatePending | UploadStateInProgress | UploadStateCompleted
  | UploadStateFailed | UploadStateCancelled

text \<open>\<open>models.UploadStatus\<close>, the transfer record. \<open>S3UploadID\<close> is the field behind
  \<open>SetS3UploadID\<close> and \<open>GetS3UploadID\<close>, which the handlers call.\<close>

record UploadStatus =
  UploadID :: string
  ClientID :: string
  FilePath :: string
  S3Bucket :: string
  S3Key :: string
  FileSize :: int
  ChunkSize :: int
  TotalParts :: int
  CompletedParts :: int
  BytesUploaded :: int
  Status :: UploadState
  StartTime :: time
  EndTime :: "time option"
  Error :: string
  ETags :: "(int, string) fmap"
  S3UploadID :: string

definition NewUploadStatus ::
  "string \<Rightarrow> string \<Rightarrow> string \<Rightarrow> string \<Rightarrow> string \<Rightarrow> int \<Rightarrow> int \<Rightarrow> int \<Rightarrow> time \<Rightarrow> UploadStatus" where
  "NewUploadStatus uploadID clientID filePath bucket key fileSize chunkSize totalParts now =
     \<lparr>UploadID = uploadID, ClientID = clientID, FilePath = filePath, S3Bucket = bucket,
      S3Key = key, FileSize = fileSize, ChunkSize = chunkSize, TotalParts = totalParts,
      CompletedParts = 0, BytesUploaded = 0, Status = UploadStatePending, StartTime = now,
      EndTime = None, Error = [], ETags = fmempty, S3UploadID = []\<rparr>"

definition SetS3UploadID :: "UploadStatus \<Rightarrow> string \<Rightarrow> UploadStatus" where
  "SetS3UploadID u s = u\<lparr>S3UploadID := s\<rparr>"

definition GetS3UploadID :: "UploadStatus \<Rightarrow> string" where
  "GetS3UploadID u = S3UploadID u"

definition UpdateProgress :: "UploadStatus \<Rightarrow> int \<Rightarrow> string \<Rightarrow> int \<Rightarrow> UploadStatus" where
  "UpdateProgress u partNumber etag bytesUploaded =
     (let u1 = (if fmlookup (ETags u) partNumber = None
                then u\<lparr>CompletedParts := wrap64 (CompletedParts u + 1)\<rparr> else u);
          u2 = u1\<lparr>ETags := fmupd partNumber etag (ETags u1), BytesUploaded := bytesUploaded\<rparr>
      in if Status u2 = UploadStatePending then u2\<lparr>Status := UploadStateInProgress\<rparr> else u2)"

definition MarkCompleted :: "UploadStatus \<Rightarrow> time \<Rightarrow> UploadStatus" where
  "MarkCompleted u now = u\<lparr>Status := UploadStateCompleted, EndTime := Some now\<rparr>"

definition MarkFailed :: "UploadStatus \<Rightarrow> string \<Rightarrow> time \<Rightarrow> UploadStatus" where
  "MarkFailed u err now = u\<lparr>Status := UploadStateFailed, Error := err, EndTime := Some now\<rparr>"

definition MarkCancelled :: "UploadStatus \<Rightarrow> time \<Rightarrow> UploadStatus" where
  "MarkCancelled u now = u\<lparr>Status := UploadStateCancelled, EndTime := Some now\<rparr>"

definition terminal :: "UploadState \<Rightarrow> bool" where
  "terminal s = (s = UploadStateCompleted \<or> s = UploadStateFailed \<or> s = UploadStateCancelled)"

text \<open>The number of entries of the digest map, \<open>len(u.ETags)\<close>.\<close>

definition len_ETags :: "UploadStatus \<Rightarrow> int" where
  "len_ETags u = int (fcard (fmdom (ETags u)))"

section \<open>server/websocket: the manager (channel registry and transfer table)\<close>

text \<open>
  The two Go maps of \<open>Manager\<close>. The transfer table holds pointers; a record is only
  reached through the table, so a mutation through the pointer is an update of the table
  entry. Closing a connection is an effect: the functions that close return the closed
  connections.
\<close>

record Manager =
  clients :: "string \<rightharpoonup> ClientConnection"
  uploads :: "string \<rightharpoonup> UploadStatus"

definition NewManager :: Manager where
  "NewManager = \<lparr>clients = Map.empty, uploads = Map.empty\<rparr>"

definition RegisterClient :: "Manager \<Rightarrow> string \<Rightarrow> conn \<Rightarrow> time \<Rightarrow> Manager \<times> conn list" where
  "RegisterClient m clientID c now =
     (let closed = (case clients m clientID of
                      Some existingConn \<Rightarrow> [Connection existingConn]
                    | None \<Rightarrow> [])
      in (m\<lparr>clients := (clients m)(clientID \<mapsto> NewClientConnection clientID c now)\<rparr>, closed))"

definition UnregisterClient :: "Manager \<Rightarrow> string \<Rightarrow> Manager \<times> conn list" where
  "UnregisterClient m clientID =
     (case clients m clientID of
        Some client \<Rightarrow> (m\<lparr>clients := (clients m)(clientID := None)\<rparr>, [Connection client])
      | None \<Rightarrow> (m, []))"

definition GetClient :: "Manager \<Rightarrow> string \<Rightarrow> ClientConnection option" where
  "GetClient m clientID = clients m clientID"

definition IsClientConnected :: "Manager \<Rightarrow> string \<Rightarrow> bool" where
  "IsClientConnected m clientID = (clients m clientID \<noteq> None)"

definition RegisterUpload :: "Manager \<Rightarrow> UploadStatus \<Rightarrow> Manager" where
  "RegisterUpload m upload = m\<lparr>uploads := (uploads m)(UploadID upload \<mapsto> upload)\<rparr>"

definition GetUpload :: "Manager \<Rightarrow> string \<Rightarrow> UploadStatus option" where
  "GetUpload m uploadID = uploads m uploadID"


definition SendCommand ::
  "Manager \<Rightarrow> (conn \<Rightarrow> CommandMessage \<Rightarrow> string option) \<Rightarrow> string \<Rightarrow> CommandMessage \<Rightarrow> time
     \<Rightarrow> error option \<times> Manager \<times> (conn \<times> CommandMessage) list" where
  "SendCommand m WriteJSON clientID cmd now =
     (case GetClient m clientID of
        None \<Rightarrow> (Some (Err (''client '' @ clientID @ '' not connected'')), m, [])
      | Some client \<Rightarrow>
          (let cmd' = cmd\<lparr>cmd_Timestamp := now, cmd_Type := MessageTypeCommand\<rparr>
           in case WriteJSON (Connection client) cmd' of
                Some e \<Rightarrow> (Some (Err (''failed to send command: '' @ e)), m, [])
              | None \<Rightarrow>
                  (None, m\<lparr>clients := (clients m)(clientID \<mapsto> UpdateActivity client now)\<rparr>,
                   [(Connection client, cmd')])))"

section \<open>server/s3: the blob-store client\<close>

record CompletedPart =
  cp_PartNumber :: int
  cp_ETag :: string

record MultipartUploadConfig =
  cfg_Key :: string
  cfg_FileSize :: int
  cfg_ChunkSize :: int
  cfg_Metadata :: "(string \<times> string) list"

record MultipartUpload =
  mu_UploadID :: string
  mu_Bucket :: string
  mu_Key :: string
  mu_TotalParts :: int
  mu_ChunkSize :: int
  mu_PresignedURLs :: "PresignedURL list"

record S3Client =
  bucket :: string
  region :: string

text \<open>
  The AWS SDK and the service behind it are the environment: each operation is a function
  giving the SDK's answer (\<open>Inl\<close> or \<open>Some\<close>: the error text). The arguments are the
  ones the wrapper passes, part numbers after their \<open>int32\<close> conversion.
\<close>

record s3_backend =
  sdk_CreateMultipartUpload :: "string \<Rightarrow> string \<Rightarrow> (string \<times> string) list \<Rightarrow> string + string"
  sdk_PresignUploadPart :: "string \<Rightarrow> string \<Rightarrow> string \<Rightarrow> int \<Rightarrow> string + string"
  sdk_CompleteMultipartUpload :: "string \<Rightarrow> string \<Rightarrow> string \<Rightarrow> (string \<times> int) list \<Rightarrow> string option"
  sdk_AbortMultipartUpload :: "string \<Rightarrow> string \<Rightarrow> string \<Rightarrow> string option"

text \<open>The calls made on the blob-store client, in the order they are made.\<close>

datatype s3_call =
    S3_InitiateMultipartUpload MultipartUploadConfig
  | S3_CompleteMultipartUpload string string "CompletedPart list"
  | S3_AbortMultipartUpload string string

definition AbortMultipartUpload ::
  "S3Client \<Rightarrow> s3_backend \<Rightarrow> string \<Rightarrow> string \<Rightarrow> error option \<times> s3_call list" where
  "AbortMultipartUpload c be key uploadID =
     (case sdk_AbortMultipartUpload be (bucket c) key uploadID of
        Some e \<Rightarrow> Some (Err (''failed to abort multipart upload: '' @ e))
      | None \<Rightarrow> None,
      [S3_AbortMultipartUpload key uploadID])"

text \<open>The loop \<open>for i := 0; i < totalParts; i++\<close> of \<open>InitiateMultipartUpload\<close>, from
  index \<open>i\<close> with \<open>n\<close> iterations left; \<open>Inl\<close> is the part whose presigning failed.\<close>

fun presign_parts ::
  "S3Client \<Rightarrow> s3_backend \<Rightarrow> string \<Rightarrow> string \<Rightarrow> int \<Rightarrow> nat \<Rightarrow> (int \<times> string) + PresignedURL list" where
  "presign_parts c be key uploadID i 0 = Inr []"
| "presign_parts c be key uploadID i (Suc n) =
     (let partNumber = i + 1
      in case sdk_PresignUploadPart be (bucket c) key uploadID (to_int32 partNumber) of
           Inl e \<Rightarrow> Inl (partNumber, e)
         | Inr url \<Rightarrow>
             (case presign_parts c be key uploadID (i + 1) n of
                Inl e \<Rightarrow> Inl e
              | Inr urls \<Rightarrow> Inr (\<lparr>PartNumber = partNumber, URL = url\<rparr> # urls)))"

text \<open>The number of parts: \<open>int(FileSize / ChunkSize)\<close>, one more when there is a
  remainder.\<close>

definition total_parts :: "int \<Rightarrow> int \<Rightarrow> int" where
  "total_parts fileSize chunkSize =
     (let totalParts = go_div fileSize chunkSize
      in if go_mod fileSize chunkSize \<noteq> 0 then totalParts + 1 else totalParts)"

text \<open>The text of the presigning error leaves the formatted part number out; the
  caller only logs it.\<close>

definition InitiateMultipartUpload ::
  "S3Client \<Rightarrow> s3_backend \<Rightarrow> MultipartUploadConfig \<Rightarrow> (error + MultipartUpload) \<times> s3_call list" where
  "InitiateMultipartUpload c be cfg =
     (case sdk_CreateMultipartUpload be (bucket c) (cfg_Key cfg) (cfg_Metadata cfg) of
        Inl e \<Rightarrow> (Inl (Err (''failed to initiate multipart upload: '' @ e)),
                  [S3_InitiateMultipartUpload cfg])
      | Inr uploadID \<Rightarrow>
          if cfg_ChunkSize cfg = 0
          then (Inl (Panic ''integer divide by zero''), [S3_InitiateMultipartUpload cfg])
          else
            (let totalParts = total_parts (cfg_FileSize cfg) (cfg_ChunkSize cfg)
             in if totalParts < 0
                then (Inl (Panic ''makeslice: len out of range''), [S3_InitiateMultipartUpload cfg])
                else
                  (case presign_parts c be (cfg_Key cfg) uploadID 0 (nat totalParts) of
                     Inl (partNumber, e) \<Rightarrow>
                       (Inl (Err (''failed to generate presigned URL for part: '' @ e)),
                        S3_InitiateMultipartUpload cfg
                          # snd (AbortMultipartUpload c be (cfg_Key cfg) uploadID))
                   | Inr presignedURLs \<Rightarrow>
                       (Inr \<lparr>mu_UploadID = uploadID, mu_Bucket = bucket c, mu_Key = cfg_Key cfg,
                             mu_TotalParts = totalParts, mu_ChunkSize = cfg_ChunkSize cfg,
                             mu_PresignedURLs = presignedURLs\<rparr>,
                        [S3_InitiateMultipartUpload cfg]))))"

definition CompleteMultipartUpload ::
  "S3Client \<Rightarrow> s3_backend \<Rightarrow> string \<Rightarrow> string \<Rightarrow> CompletedPart list \<Rightarrow> error option \<times> s3_call list" where
  "CompleteMultipartUpload c be key uploadID parts =
     (let completedParts = map (\<lambda>part. (cp_ETag part, to_int32 (cp_PartNumber part))) parts
      in (case sdk_CompleteMultipartUpload be (bucket c) key uploadID completedParts of
            Some e \<Rightarrow> Some (Err (''failed to complete multipart upload: '' @ e))
          | None \<Rightarrow> None,
          [S3_CompleteMultipartUpload key uploadID parts]))"

definition error_text :: "error \<Rightarrow> string" where
  "error_text e = (case e of Err s \<Rightarrow> s | Panic s \<Rightarrow> s)"

section \<open>server/api: the transfer orchestrator\<close>

record Handler =
  s3Client :: S3Client
  chunkSize :: int
  baseS3Path :: string

definition NewHandler :: "S3Client \<Rightarrow> int \<Rightarrow> string \<Rightarrow> Handler" where
  "NewHandler c cfgChunkSize cfgBaseS3Path =
     \<lparr>s3Client = c,
      chunkSize = (if cfgChunkSize = 0 then 5 * 1024 * 1024 else cfgChunkSize),
      baseS3Path = (if cfgBaseS3Path = [] then ''uploads'' else cfgBaseS3Path)\<rparr>"

subsection \<open>HandleStatus\<close>

definition HandleStatus :: "Manager \<Rightarrow> string \<Rightarrow> StatusMessage \<Rightarrow> Manager" where
  "HandleStatus m clientID msg =
     (case CurrentUpload msg of
        None \<Rightarrow> m
      | Some cu \<Rightarrow>
          (case GetUpload m (cu_UploadID cu) of
             None \<Rightarrow> m
           | Some upload \<Rightarrow>
               m\<lparr>uploads := (uploads m)(cu_UploadID cu \<mapsto>
                     upload\<lparr>BytesUploaded := cu_BytesUploaded cu,
                            CompletedParts := cu_CompletedParts cu\<rparr>)\<rparr>))"

subsection \<open>HandleResponse\<close>

text \<open>
  The ETag extraction of \<open>HandleResponse\<close>: a \<open>range\<close> over the decoded \<open>etags\<close> object
  (in the order \<open>ord_raw\<close>), each key read by \<open>fmt.Sscanf(k, "%d", &partNum)\<close>. The
  scanner is the parameter \<open>scan\<close> (\<open>None\<close>: it returned an error). The resulting
  \<open>map[int]string\<close> is the list of its entries; a later entry for a part number
  overwrites the earlier one. A payload without an \<open>etags\<close> object leaves the map nil,
  whose length is 0 as well.
\<close>

definition extract_etags ::
  "(string \<Rightarrow> int option) \<Rightarrow> (string \<times> json) range_order \<Rightarrow> (string \<times> json) list
     \<Rightarrow> (int \<times> string) list" where
  "extract_etags scan ord_raw payload =
     (case map_of payload ''etags'' of
        Some (JObj etagsRaw) \<Rightarrow>
          foldl (\<lambda>etags (k, v).
                   case scan k of
                     Some partNum \<Rightarrow>
                       (case v of JStr etag \<Rightarrow> AList.update partNum etag etags | _ \<Rightarrow> etags)
                   | None \<Rightarrow> etags)
                [] (ord_raw etagsRaw)
      | _ \<Rightarrow> [])"

text \<open>The part list: a \<open>range\<close> over the ETag map (in the order \<open>ord_etags\<close>), then
  \<open>sort.Slice\<close> by part number.\<close>

definition completed_parts :: "(int \<times> string) range_order \<Rightarrow> (int \<times> string) list \<Rightarrow> CompletedPart list" where
  "completed_parts ord_etags etags =
     sort_key cp_PartNumber
       (map (\<lambda>(partNum, etag). \<lparr>cp_PartNumber = partNum, cp_ETag = etag\<rparr>) (ord_etags etags))"

text \<open>
  \<open>HandleResponse\<close> returns the manager and the calls made on the blob-store client.
  \<open>now\<close> is the instant read by \<open>MarkCompleted\<close>, \<open>MarkFailed\<close> (of an error response)
  or \<open>MarkCancelled\<close>; \<open>later\<close> the instant read by \<open>MarkFailed\<close> after a failed completion.
\<close>

definition HandleResponse ::
  "Handler \<Rightarrow> s3_backend \<Rightarrow> (string \<Rightarrow> int option) \<Rightarrow> (string \<times> json) range_order
     \<Rightarrow> (int \<times> string) range_order \<Rightarrow> time \<Rightarrow> time \<Rightarrow> Manager \<Rightarrow> string \<Rightarrow> ResponseMessage
     \<Rightarrow> Manager \<times> s3_call list" where
  "HandleResponse h be scan ord_raw ord_etags now later m clientID msg =
     (if rm_Action msg = CommandActionDownloadFile then
        (case rm_Payload msg of
           JObj payload \<Rightarrow>
             (let uploadID = (case map_of payload ''upload_id'' of Some (JStr s) \<Rightarrow> s | _ \<Rightarrow> [])
              in case GetUpload m uploadID of
                   None \<Rightarrow> (m, [])
                 | Some upload \<Rightarrow>
                     if rm_Status msg = ResponseStatusSuccess then
                       (let upload1 = MarkCompleted upload now;
                            etags = extract_etags scan ord_raw payload
                        in if length etags > 0 then
                             (let parts = completed_parts ord_etags etags;
                                  s3UploadID = GetS3UploadID upload1;
                                  (err, calls) = CompleteMultipartUpload (s3Client h) be
                                                   (S3Key upload1) s3UploadID parts
                              in case err of
                                   Some e \<Rightarrow>
                                     (m\<lparr>uploads := (uploads m)(uploadID \<mapsto>
                                           MarkFailed upload1 (error_text e) later)\<rparr>, calls)
                                 | None \<Rightarrow> (m\<lparr>uploads := (uploads m)(uploadID \<mapsto> upload1)\<rparr>, calls))
                           else (m\<lparr>uploads := (uploads m)(uploadID \<mapsto> upload1)\<rparr>, []))
                     else if rm_Status msg = ResponseStatusError then
                       (let upload1 = MarkFailed upload (rm_Error msg) now
                        in (m\<lparr>uploads := (uploads m)(uploadID \<mapsto> upload1)\<rparr>,
                            snd (AbortMultipartUpload (s3Client h) be (S3Key upload1)
                                   (GetS3UploadID upload1))))
                     else if rm_Status msg = ResponseStatusCancelled then
                       (let upload1 = MarkCancelled upload now
                        in (m\<lparr>uploads := (uploads m)(uploadID \<mapsto> upload1)\<rparr>,
                            snd (AbortMultipartUpload (s3Client h) be (S3Key upload1)
                                   (GetS3UploadID upload1))))
                     else (m, []))
         | _ \<Rightarrow> (m, []))
      else (m, []))"

text \<open>
  The states of the registry that the coordinator can reach: every operation of this
  development that returns a manager is a step.
\<close>

inductive reachable :: "Manager \<Rightarrow> bool" where
  reachable_New: "reachable NewManager"
| reachable_Register: "reachable m \<Longrightarrow> reachable (fst (RegisterClient m clientID c now))"
| reachable_Unregister: "reachable m \<Longrightarrow> reachable (fst (UnregisterClient m clientID))"
| reachable_Send: "reachable m \<Longrightarrow> reachable (fst (snd (SendCommand m WriteJSON clientID cmd now)))"
| reachable_Upload: "reachable m \<Longrightarrow> reachable (RegisterUpload m upload)"
| reachable_Status: "reachable m \<Longrightarrow> reachable (HandleStatus m clientID smsg)"
| reachable_Response:
    "reachable m \<Longrightarrow>
     reachable (fst (HandleResponse h be scan ord_raw ord_etags now later m clientID rmsg))"

text \<open>The handles the registry holds for an agent id.\<close>

definition handles_for :: "Manager \<Rightarrow> string \<Rightarrow> ClientConnection set" where
  "handles_for m clientID = {h. \<exists>k. clients m k = Some h \<and> cc_ClientID h = clientID}"

subsection \<open>TriggerDownload\<close>

text \<open>
  The request as \<open>TriggerDownload\<close> reads it: method, URL path, and the body after the
  decoding attempt (a missing or undecodable body leaves the fields at their zero values).
\<close>

record http_request =
  req_Method :: string
  req_Path :: string
  req_FilePath :: string
  req_Metadata :: "(string \<times> string) list"

datatype http_response =
    ErrorResponse nat string string
  | TriggerDownloadResponse nat bool string string string

definition StatusText :: "nat \<Rightarrow> string" where
  "StatusText code =
     (if code = 400 then ''Bad Request''
      else if code = 404 then ''Not Found''
      else if code = 405 then ''Method Not Allowed''
      else if code = 500 then ''Internal Server Error''
      else [])"

definition sendError :: "nat \<Rightarrow> string \<Rightarrow> http_response" where
  "sendError code message = ErrorResponse code (StatusText code) message"

text \<open>\<open>path.Base\<close>: the last element of a slash-separated path.\<close>

definition path_Base :: "string \<Rightarrow> string" where
  "path_Base p =
     (if p = [] then ''.''
      else (let stripped = rev (dropWhile (\<lambda>ch. ch = CHR ''/'') (rev p));
                last_elem = rev (takeWhile (\<lambda>ch. ch \<noteq> CHR ''/'') (rev stripped))
            in if last_elem = [] then ''/'' else last_elem))"

definition hex_digit :: "nat \<Rightarrow> char" where
  "hex_digit n = ''0123456789abcdef'' ! (n mod 16)"

definition EncodeToString :: "nat list \<Rightarrow> string" where
  "EncodeToString bs = concat (map (\<lambda>b. [hex_digit (b div 16), hex_digit b]) bs)"

text \<open>\<open>generateUploadID\<close>: 16 bytes from \<open>crypto/rand\<close> (the argument: the error of
  \<open>rand.Read\<close> or the bytes it delivered), in hexadecimal.\<close>

definition generateUploadID :: "string + nat list \<Rightarrow> error + string" where
  "generateUploadID rand_Read =
     (case rand_Read of
        Inl e \<Rightarrow> Inl (Err e)
      | Inr bytes \<Rightarrow> Inr (EncodeToString (take 16 (bytes @ replicate 16 0))))"

text \<open>What \<open>TriggerDownload\<close> reads from its surroundings: the random source, the formatted
  and the raw clock, the socket write and the blob store.\<close>

record trigger_env =
  env_rand :: "string + nat list"
  env_timestamp :: string
  env_now :: time
  env_WriteJSON :: "conn \<Rightarrow> CommandMessage \<Rightarrow> string option"
  env_s3 :: s3_backend

definition estimatedFileSize :: int where
  "estimatedFileSize = 100 * 1024 * 1024"

text \<open>\<open>TriggerDownload\<close> returns the HTTP response, the manager, the calls made on the
  blob-store client and the frames written to agent sockets.\<close>

definition TriggerDownload ::
  "Handler \<Rightarrow> trigger_env \<Rightarrow> Manager \<Rightarrow> http_request
     \<Rightarrow> http_response \<times> Manager \<times> s3_call list \<times> (conn \<times> CommandMessage) list" where
  "TriggerDownload h env m r =
     (if req_Method r \<noteq> ''POST'' then (sendError 405 ''Method not allowed'', m, [], [])
      else
        (let clientID = path_Base (req_Path r)
         in if clientID = [] \<or> clientID = ''trigger-download''
            then (sendError 400 ''Client ID is required'', m, [], [])
            else if \<not> IsClientConnected m clientID
            then (sendError 404 (''Client '' @ clientID @ '' is not connected''), m, [], [])
            else
              (let filePath = (if req_FilePath r = [] then ''/data/test-file.bin''
                               else req_FilePath r)
               in case generateUploadID (env_rand env) of
                    Inl e \<Rightarrow> (sendError 500 ''Failed to generate upload ID'', m, [], [])
                  | Inr uploadID \<Rightarrow>
                      (let s3Key = baseS3Path h @ ''/'' @ clientID @ ''/'' @ env_timestamp env
                                     @ ''-'' @ path_Base filePath;
                           (res, calls) = InitiateMultipartUpload (s3Client h) (env_s3 env)
                               \<lparr>cfg_Key = s3Key, cfg_FileSize = estimatedFileSize,
                                cfg_ChunkSize = chunkSize h, cfg_Metadata = req_Metadata r\<rparr>
                       in case res of
                            Inl e \<Rightarrow> (sendError 500 ''Failed to initiate upload'', m, calls, [])
                          | Inr multipartUpload \<Rightarrow>
                              (let uploadStatus = SetS3UploadID
                                     (NewUploadStatus uploadID clientID filePath
                                        (mu_Bucket multipartUpload) (mu_Key multipartUpload)
                                        estimatedFileSize (chunkSize h)
                                        (mu_TotalParts multipartUpload) (env_now env))
                                     (mu_UploadID multipartUpload);
                                   m1 = RegisterUpload m uploadStatus;
                                   presignedURLs = map (\<lambda>url. \<lparr>PartNumber = PartNumber url,
                                                               URL = URL url\<rparr>)
                                                     (mu_PresignedURLs multipartUpload);
                                   command = \<lparr>cmd_Type = [], cmd_Timestamp = 0,
                                     MessageID = uploadID,
                                     Action = CommandActionDownloadFile,
                                     Payload = \<lparr>dp_FilePath = filePath,
                                       dp_UploadConfig = \<lparr>uc_UploadID = uploadID,
                                         uc_Bucket = mu_Bucket multipartUpload,
                                         uc_Key = mu_Key multipartUpload,
                                         uc_Region = [],
                                         uc_ChunkSize = chunkSize h,
                                         PresignedURLs = presignedURLs\<rparr>,
                                       dp_Metadata = req_Metadata r\<rparr>\<rparr>;
                                   (err, m2, sent) = SendCommand m1 (env_WriteJSON env) clientID
                                                       command (env_now env)
                               in case err of
                                    Some e \<Rightarrow> (sendError 500 ''Failed to send command to client'',
                                               m2, calls, sent)
                                  | None \<Rightarrow>
                                      (TriggerDownloadResponse 200 True
                                         (''Download triggered for client '' @ clientID)
                                         uploadID s3Key,
                                       m2, calls, sent))))))"

section \<open>The command on the wire\<close>

text \<open>
  The \<open>download_file\<close> payload as the agent decodes it into \<open>map[string]interface{}\<close>,
  field by field after the JSON tags of \<open>DownloadFilePayload\<close>, \<open>UploadConfig\<close> and
  \<open>PresignedURL\<close> (\<open>metadata\<close> is \<open>omitempty\<close>).
\<close>

definition PresignedURL_json :: "PresignedURL \<Rightarrow> json" where
  "PresignedURL_json u = JObj [(''part_number'', JNum (PartNumber u)), (''url'', JStr (URL u))]"

definition UploadConfig_json :: "UploadConfig \<Rightarrow> json" where
  "UploadConfig_json uc =
     JObj [(''upload_id'', JStr (uc_UploadID uc)), (''bucket'', JStr (uc_Bucket uc)),
           (''key'', JStr (uc_Key uc)), (''region'', JStr (uc_Region uc)),
           (''chunk_size'', JNum (uc_ChunkSize uc)),
           (''presigned_urls'', JArr (map PresignedURL_json (PresignedURLs uc)))]"

definition DownloadFilePayload_json :: "DownloadFilePayload \<Rightarrow> json" where
  "DownloadFilePayload_json p =
     JObj ([(''file_path'', JStr (dp_FilePath p)),
            (''upload_config'', UploadConfig_json (dp_UploadConfig p))]
           @ (if dp_Metadata p = [] then []
              else [(''metadata'', JObj (map (\<lambda>(k, v). (k, JStr v)) (dp_Metadata p)))]))"

section \<open>client/handler: the command handler of the agent\<close>

definition parseUploadConfig :: "(string \<times> json) list \<Rightarrow> error + UploadConfig" where
  "parseUploadConfig cm =
     (let config = \<lparr>
            uc_UploadID = (case map_of cm ''upload_id'' of Some (JStr s) \<Rightarrow> s | _ \<Rightarrow> []),
            uc_Bucket = (case map_of cm ''bucket'' of Some (JStr s) \<Rightarrow> s | _ \<Rightarrow> []),
            uc_Key = (case map_of cm ''key'' of Some (JStr s) \<Rightarrow> s | _ \<Rightarrow> []),
            uc_Region = (case map_of cm ''region'' of Some (JStr s) \<Rightarrow> s | _ \<Rightarrow> []),
            uc_ChunkSize = (case map_of cm ''chunk_size'' of Some (JNum n) \<Rightarrow> n | _ \<Rightarrow> 0),
            PresignedURLs =
              (case map_of cm ''presigned_urls'' of
                 Some (JArr presignedURLs) \<Rightarrow>
                   map (\<lambda>urlInterface.
                          case urlInterface of
                            JObj urlMap \<Rightarrow>
                              \<lparr>PartNumber = (case map_of urlMap ''part_number'' of
                                               Some (JNum n) \<Rightarrow> n | _ \<Rightarrow> 0),
                               URL = (case map_of urlMap ''url'' of
                                        Some (JStr s) \<Rightarrow> s | _ \<Rightarrow> [])\<rparr>
                          | _ \<Rightarrow> \<lparr>PartNumber = 0, URL = []\<rparr>)
                       presignedURLs
               | _ \<Rightarrow> [])\<rparr>
      in if uc_UploadID config = [] \<or> length (PresignedURLs config) = 0
         then Inl (Err ''invalid upload config: missing required fields'')
         else Inr config)"

text \<open>
  \<open>handleDownloadFile\<close> up to the choice of the file to upload (handler.go, lines 48 to
  70): \<open>Inl\<close> is the text of the error response sent instead, \<open>Inr\<close> the effective file
  path and the ticket. \<open>hFilePath\<close> is the agent's configured default path.
\<close>

definition handleDownloadFile_filePath :: "string \<Rightarrow> json \<Rightarrow> string + (string \<times> UploadConfig)" where
  "handleDownloadFile_filePath hFilePath cmdPayload =
     (case cmdPayload of
        JObj payloadMap \<Rightarrow>
          (case map_of payloadMap ''upload_config'' of
             Some (JObj uploadConfigMap) \<Rightarrow>
               (case parseUploadConfig uploadConfigMap of
                  Inl e \<Rightarrow> Inl (''failed to parse upload config: '' @ error_text e)
                | Inr uploadConfig \<Rightarrow>
                    Inr (case map_of payloadMap ''file_path'' of
                           Some (JStr fp) \<Rightarrow> if fp \<noteq> [] then fp else hFilePath
                         | _ \<Rightarrow> hFilePath,
                         uploadConfig))
           | _ \<Rightarrow> Inl ''missing upload_config'')
      | _ \<Rightarrow> Inl ''invalid payload format'')"

section \<open>client/uploader: the transfer executor\<close>

text \<open>
  The surroundings of \<open>Upload\<close>: the file system (\<open>os.Open\<close> gives an error text or the
  bytes of the file, whose number is the size \<open>Stat\<close> reports) and the HTTP client.
\<close>

datatype put_result = RequestInvalid string | TransportError string
  | HttpResponse nat string string

record agent_env =
  os_Open :: "string \<Rightarrow> string + nat list"
  file_Stat_error :: "string \<Rightarrow> string option"
  http_PUT :: "string \<Rightarrow> nat list \<Rightarrow> put_result"

record UploadResult =
  Success :: bool
  ur_UploadID :: string
  ur_FileSize :: int
  ur_TotalParts :: int
  ur_CompletedParts :: int
  ur_ETags :: "(int, string) fmap"

definition uploadPart :: "agent_env \<Rightarrow> string \<Rightarrow> nat list \<Rightarrow> error + string" where
  "uploadPart env presignedURL data =
     (case http_PUT env presignedURL data of
        RequestInvalid e \<Rightarrow> Inl (Err (''failed to create request: '' @ e))
      | TransportError e \<Rightarrow> Inl (Err (''failed to upload: '' @ e))
      | HttpResponse code body etag \<Rightarrow>
          if code \<noteq> 200 then Inl (Err (''upload failed with status: '' @ body))
          else if etag = [] then Inl (Err ''no ETag in response'')
          else Inr etag)"

text \<open>\<open>file.ReadAt(partData, offset)\<close> on a buffer of \<open>n\<close> zero bytes: a negative offset
  is an error; a read that reaches the end of the file returns \<open>io.EOF\<close>, which \<open>Upload\<close>
  accepts, and leaves the rest of the buffer zero.\<close>

definition ReadAt :: "nat list \<Rightarrow> nat \<Rightarrow> int \<Rightarrow> string + nat list" where
  "ReadAt content n off =
     (if off < 0 then Inl ''negative offset''
      else (let got = take n (drop (nat off) content)
            in Inr (got @ replicate (n - length got) 0)))"

text \<open>
  The loop of \<open>Upload\<close> over the presigned URLs of the ticket. The result is the ETag map
  and the byte count, or the failure; with it come the part uploads attempted (URL and
  body) and the calls of the progress callback.
\<close>

fun upload_parts ::
  "agent_env \<Rightarrow> UploadConfig \<Rightarrow> nat list \<Rightarrow> int \<Rightarrow> PresignedURL list
     \<Rightarrow> (int, string) fmap \<Rightarrow> int
     \<Rightarrow> (error + (int, string) fmap \<times> int) \<times> (string \<times> nat list) list
          \<times> (int \<times> int \<times> int \<times> int) list" where
  "upload_parts env cfg content totalParts [] etags bytesUploaded =
     (Inr (etags, bytesUploaded), [], [])"
| "upload_parts env cfg content totalParts (presignedURL # rest) etags bytesUploaded =
     (let fileSize = int (length content);
          partNumber = PartNumber presignedURL;
          offset = wrap64 (wrap64 (partNumber - 1) * uc_ChunkSize cfg);
          partSize = (if wrap64 (offset + uc_ChunkSize cfg) > fileSize
                      then wrap64 (fileSize - offset) else uc_ChunkSize cfg)
      in if partSize < 0 then (Inl (Panic ''makeslice: len out of range''), [], [])
         else
           (case ReadAt content (nat partSize) offset of
              Inl e \<Rightarrow> (Inl (Err (''failed to read part: '' @ e)), [], [])
            | Inr partData \<Rightarrow>
                (case uploadPart env (URL presignedURL) partData of
                   Inl e \<Rightarrow> (Inl (Err (''failed to upload part: '' @ error_text e)),
                             [(URL presignedURL, partData)], [])
                 | Inr etag \<Rightarrow>
                     (let bytesUploaded' = wrap64 (bytesUploaded + partSize);
                          (res, puts, progress) =
                             upload_parts env cfg content totalParts rest
                               (fmupd partNumber etag etags) bytesUploaded'
                      in (res, (URL presignedURL, partData) # puts,
                          (partNumber, totalParts, bytesUploaded', fileSize) # progress)))))"

definition Upload ::
  "agent_env \<Rightarrow> string \<Rightarrow> UploadConfig
     \<Rightarrow> (error + UploadResult) \<times> (string \<times> nat list) list \<times> (int \<times> int \<times> int \<times> int) list" where
  "Upload env filePath cfg =
     (case os_Open env filePath of
        Inl e \<Rightarrow> (Inl (Err (''failed to open file: '' @ e)), [], [])
      | Inr content \<Rightarrow>
          (case file_Stat_error env filePath of
             Some e \<Rightarrow> (Inl (Err (''failed to stat file: '' @ e)), [], [])
           | None \<Rightarrow>
               (let totalParts = int (length (PresignedURLs cfg));
                    (res, puts, progress) =
                       upload_parts env cfg content totalParts (PresignedURLs cfg) fmempty 0
                in (case res of
                      Inl e \<Rightarrow> Inl e
                    | Inr (etags, bytesUploaded) \<Rightarrow>
                        Inr \<lparr>Success = True, ur_UploadID = uc_UploadID cfg,
                             ur_FileSize = int (length content), ur_TotalParts = totalParts,
                             ur_CompletedParts = int (fcard (fmdom etags)),
                             ur_ETags = etags\<rparr>,
                    puts, progress))))"

text \<open>\<open>CalculateParts\<close>, the helper of the uploader package that no caller uses; a zero
  chunk size is a division by zero.\<close>

definition CalculateParts :: "int \<Rightarrow> int \<Rightarrow> error + int" where
  "CalculateParts fileSize chunk =
     (if chunk = 0 then Inl (Panic ''integer divide by zero'')
      else Inr (total_parts fileSize chunk))"

section \<open>client/websocket: reconnection of the agent\<close>

record AgentClient =
  ws_clientID :: string
  ws_serverURL :: string
  ws_token :: string
  reconnectDelay :: int
  maxReconnect :: int

definition NewClient :: "string \<Rightarrow> string \<Rightarrow> string \<Rightarrow> int \<Rightarrow> int \<Rightarrow> AgentClient" where
  "NewClient cid url tok cfgReconnectDelay cfgMaxReconnect =
     \<lparr>ws_clientID = cid, ws_serverURL = url, ws_token = tok,
      reconnectDelay = (if cfgReconnectDelay = 0 then 5 * 1000000000 else cfgReconnectDelay),
      maxReconnect = (if cfgMaxReconnect = 0 then 5 * 60 * 1000000000 else cfgMaxReconnect)\<rparr>"

text \<open>
  One pass of the loop of \<open>Start\<close>, as the surroundings decide it: a stop (or a cancelled
  context) seen at the head of the loop; a failed dial whose backoff wait elapses, or is
  cut short by a stop; a successful dial whose connection later drops, with or without a
  stop request pending.
\<close>

datatype attempt = StopBeforeDial | DialFailed_WaitElapsed | DialFailed_StopDuringWait
  | Connected_ThenDropped | Connected_ThenStopped

text \<open>The waits \<open>Start\<close> begins: \<open>time.After\<close> of the backoff, \<open>time.Sleep\<close> after a
  disconnection.\<close>

datatype wait = Backoff int | Sleep int

text \<open>The backoff step: \<open>reconnectDelay *= 2\<close>, capped at \<open>c.maxReconnect\<close>.\<close>

definition next_delay :: "AgentClient \<Rightarrow> int \<Rightarrow> int" where
  "next_delay c d = (let d2 = wrap64 (d * 2) in if d2 > maxReconnect c then maxReconnect c else d2)"

text \<open>The loop from the current value \<open>d\<close> of the local \<open>reconnectDelay\<close>: the waits
  begun, in order, and the value of \<open>reconnectDelay\<close> at the end of the given passes.\<close>

fun Start_loop :: "AgentClient \<Rightarrow> int \<Rightarrow> attempt list \<Rightarrow> wait list \<times> int" where
  "Start_loop c d [] = ([], d)"
| "Start_loop c d (StopBeforeDial # rest) = ([], d)"
| "Start_loop c d (DialFailed_WaitElapsed # rest) =
     (let (ws, d') = Start_loop c (next_delay c d) rest in (Backoff d # ws, d'))"
| "Start_loop c d (DialFailed_StopDuringWait # rest) = ([Backoff d], d)"
| "Start_loop c d (Connected_ThenDropped # rest) =
     (let (ws, d') = Start_loop c (reconnectDelay c) rest in (Sleep (reconnectDelay c) # ws, d'))"
| "Start_loop c d (Connected_ThenStopped # rest) = ([], reconnectDelay c)"

definition Start :: "AgentClient \<Rightarrow> attempt list \<Rightarrow> wait list \<times> int" where
  "Start c passes = Start_loop c (reconnectDelay c) passes"

section \<open>Concrete inputs\<close>

text \<open>The states and messages at which the theorems below are evaluated. \<open>example_scan\<close>
  stands for \<open>fmt.Sscanf(k, "%d", &partNum)\<close> on the keys \<open>"1"\<close>, \<open>"2"\<close>, \<open>"3"\<close>.\<close>

definition example_s3 :: S3Client where
  "example_s3 = \<lparr>bucket = ''uploads-bucket'', region = ''us-east-1''\<rparr>"

definition example_handler :: Handler where
  "example_handler = NewHandler example_s3 0 []"

definition accepting_backend :: s3_backend where
  "accepting_backend =
     \<lparr>sdk_CreateMultipartUpload = (\<lambda>b k md. Inr ''s3-session''),
      sdk_PresignUploadPart = (\<lambda>b k u n. Inr ''https://s3/part''),
      sdk_CompleteMultipartUpload = (\<lambda>b k u ps. None),
      sdk_AbortMultipartUpload = (\<lambda>b k u. None)\<rparr>"

definition example_scan :: "string \<Rightarrow> int option" where
  "example_scan = map_of [(''1'', 1), (''2'', 2), (''3'', 3)]"

definition example_upload :: UploadStatus where
  "example_upload =
     SetS3UploadID
       (NewUploadStatus ''t1'' ''agent-1'' ''/data/test-file.bin'' ''uploads-bucket'' ''k''
          (100 * 1024 * 1024) (5 * 1024 * 1024) 20 0)
       ''s3-session''"

definition example_manager :: Manager where
  "example_manager = RegisterUpload NewManager example_upload"

definition completed_manager :: Manager where
  "completed_manager = RegisterUpload NewManager (MarkCompleted example_upload 10)"

definition success_response :: ResponseMessage where
  "success_response =
     \<lparr>rm_Status = ResponseStatusSuccess, CommandID = ''t1'',
      rm_Action = CommandActionDownloadFile,
      rm_Payload = JObj [(''upload_id'', JStr ''t1''),
                         (''etags'', JObj [(''2'', JStr ''e2''), (''1'', JStr ''e1'')])],
      rm_Error = []\<rparr>"

definition progress_frame :: StatusMessage where
  "progress_frame =
     \<lparr>sm_ClientID = ''agent-1'', sm_Status = ''uploading'',
      CurrentUpload = Some \<lparr>cu_UploadID = ''t1'', cu_FilePath = ''/data/test-file.bin'',
                             cu_FileSize = 12582912, cu_TotalParts = 20,
                             cu_CompletedParts = 1, cu_BytesUploaded = 5242880\<rparr>\<rparr>"

definition default_client :: AgentClient where
  "default_client = NewClient ''agent-1'' ''ws://server/ws/connect'' [] 0 0"

definition example_env :: trigger_env where
  "example_env =
     \<lparr>env_rand = Inr [0, 17, 34, 51, 68, 85, 102, 119, 136, 153, 170, 187, 204, 221, 238, 255],
      env_timestamp = ''20261031-120000'', env_now = 100,
      env_WriteJSON = (\<lambda>c cmd. None), env_s3 = accepting_backend\<rparr>"


definition connected_manager :: Manager where
  "connected_manager = fst (RegisterClient NewManager ''agent-1'' 1 0)"

definition trigger_request :: http_request where
  "trigger_request = \<lparr>req_Method = ''POST'', req_Path = ''/trigger-download/agent-1'',
                       req_FilePath = [], req_Metadata = []\<rparr>"

definition request_12mb :: http_request where
  "request_12mb = \<lparr>req_Method = ''POST'', req_Path = ''/trigger-download/agent-1'',
                    req_FilePath = ''/data/file-of-12MB.bin'', req_Metadata = []\<rparr>"

definition agent_with_12mb_file :: agent_env where
  "agent_with_12mb_file =
     \<lparr>os_Open = (\<lambda>path. Inr (replicate 12582912 0)),
      file_Stat_error = (\<lambda>path. None),
      http_PUT = (\<lambda>url body. HttpResponse 200 [] ''etag'')\<rparr>"

definition ticket_of_20_parts :: UploadConfig where
  "ticket_of_20_parts =
     \<lparr>uc_UploadID = ''00112233445566778899aabbccddeeff'', uc_Bucket = ''uploads-bucket'',
      uc_Key = ''uploads/agent-1/20261031-120000-file-of-12MB.bin'', uc_Region = [],
      uc_ChunkSize = 5242880,
      PresignedURLs = map (\<lambda>n. \<lparr>PartNumber = n, URL = ''https://s3/part''\<rparr>) [1..20]\<rparr>"

section \<open>Properties\<close>

lemmas example_defs = example_s3_def example_handler_def accepting_backend_def
  example_scan_def example_upload_def example_manager_def completed_manager_def
  success_response_def progress_frame_def

lemmas model_defs = NewHandler_def NewManager_def RegisterUpload_def GetUpload_def
  NewUploadStatus_def SetS3UploadID_def GetS3UploadID_def MarkCompleted_def MarkFailed_def
  MarkCancelled_def HandleStatus_def HandleResponse_def extract_etags_def completed_parts_def
  CompleteMultipartUpload_def AbortMultipartUpload_def error_text_def
  CommandActionDownloadFile_def ResponseStatusSuccess_def ResponseStatusError_def
  ResponseStatusCancelled_def terminal_def len_ETags_def

subsection \<open>Helper lemmas\<close>

lemma HandleStatus_hit:
  assumes "CurrentUpload msg = Some cu" "GetUpload m (cu_UploadID cu) = Some u"
  shows "GetUpload (HandleStatus m c msg) (cu_UploadID cu)
         = Some (u\<lparr>BytesUploaded := cu_BytesUploaded cu, CompletedParts := cu_CompletedParts cu\<rparr>)"
  using assms by (simp add: HandleStatus_def GetUpload_def)

lemma HandleStatus_other:
  assumes "CurrentUpload msg = Some cu" "uid \<noteq> cu_UploadID cu"
  shows "GetUpload (HandleStatus m c msg) uid = GetUpload m uid"
  using assms by (simp add: HandleStatus_def GetUpload_def split: option.splits)

lemma sorted_cp: "sorted (map cp_PartNumber (completed_parts ord etags))"
  by (simp add: completed_parts_def)

lemma distinct_extract: "distinct (map fst (extract_etags scan ord payload))"
proof -
  have *: "distinct (map fst acc) \<Longrightarrow> distinct (map fst (foldl (\<lambda>etags (k, v).
                   case scan k of
                     Some partNum \<Rightarrow>
                       (case v of JStr etag \<Rightarrow> AList.update partNum etag etags | _ \<Rightarrow> etags)
                   | None \<Rightarrow> etags) acc xs))" for acc xs
    by (induction xs arbitrary: acc) (auto simp: distinct_update split: option.splits json.splits)
  show ?thesis unfolding extract_etags_def
    by (auto split: option.splits json.splits intro: *)
qed

lemma strict_cp:
  assumes "is_iteration_order ord" "distinct (map fst etags)"
  shows "sorted_wrt (<) (map cp_PartNumber (completed_parts ord etags))"
proof -
  have m: "mset (ord etags) = mset etags" using assms(1) by (simp add: is_iteration_order_def)
  have "mset (map fst (ord etags)) = mset (map fst etags)" using m by (metis mset_map)
  then have d: "distinct (map fst (ord etags))" using assms(2) mset_eq_imp_distinct_iff by blast
  have e: "map cp_PartNumber (map (\<lambda>(partNum, etag). \<lparr>cp_PartNumber = partNum, cp_ETag = etag\<rparr>) xs) = map fst xs" for xs
    by (induction xs) auto
  have "distinct (map cp_PartNumber (completed_parts ord etags))"
    unfolding completed_parts_def using d e
    by (metis distinct_map distinct_sort set_sort  )
  then show ?thesis using sorted_cp[of ord etags] by (simp add: strict_sorted_iff)
qed

lemma HandleResponse_keeps_counters:
  assumes "GetUpload m uid = Some u"
  shows "\<exists>u'. GetUpload (fst (HandleResponse h be scan o1 o2 now later m c rmsg)) uid = Some u'
            \<and> ETags u' = ETags u \<and> CompletedParts u' = CompletedParts u"
  using assms
  by (auto simp: HandleResponse_def GetUpload_def MarkCompleted_def MarkFailed_def MarkCancelled_def
        CompleteMultipartUpload_def Let_def split: json.splits option.splits prod.splits)

lemma UpdateProgress_keeps_count:
  assumes "CompletedParts u = len_ETags u" and "CompletedParts u < 2 ^ 63 - 1"
  shows "CompletedParts (UpdateProgress u partNumber etag n) = len_ETags (UpdateProgress u partNumber etag n)"
proof -
  have w: "wrap64 (CompletedParts u + 1) = CompletedParts u + 1"
    using assms by (simp add: wrap64_def len_ETags_def)
  show ?thesis
  proof (cases "fmlookup (ETags u) partNumber")
    case None
    then have "partNumber |\<notin>| fmdom (ETags u)" by (simp add: fmdom_notI)
    then show ?thesis using None assms(1) w
      by (simp add: UpdateProgress_def len_ETags_def Let_def fcard_finsert_if)
  next
    case (Some a)
    then have "partNumber |\<in>| fmdom (ETags u)" by (simp add: fmdomI)
    then show ?thesis using Some assms(1)
      by (simp add: UpdateProgress_def len_ETags_def Let_def fcard_finsert_if)
  qed
qed

lemma HandleResponse_calls:
  assumes "call \<in> set (snd (HandleResponse h be scan ord_raw ord_etags now later m clientID msg))"
  shows "(\<exists>key uid payload. call = S3_CompleteMultipartUpload key uid
              (completed_parts ord_etags (extract_etags scan ord_raw payload)))
         \<or> (\<exists>key uid. call = S3_AbortMultipartUpload key uid)"
  using assms
  by (auto simp: HandleResponse_def CompleteMultipartUpload_def AbortMultipartUpload_def Let_def
        split: if_splits json.splits option.splits prod.splits)

subsection \<open>C5: a Status frame on a terminal record\<close>

text \<open>C5 (counterexample). The claim that a Status frame leaves a terminal record unchanged
  fails: a Completed record with both counters 0 has the counters 1 and 5242880 after
  \<open>HandleStatus\<close>.\<close>

theorem terminal_record_mutated_by_Status:
  "GetUpload completed_manager ''t1'' = Some (MarkCompleted example_upload 10)
   \<and> terminal (Status (MarkCompleted example_upload 10))
   \<and> CompletedParts (MarkCompleted example_upload 10) = 0
   \<and> GetUpload (HandleStatus completed_manager ''agent-1'' progress_frame) ''t1''
       = Some ((MarkCompleted example_upload 10)\<lparr>BytesUploaded := 5242880, CompletedParts := 1\<rparr>)
   \<and> GetUpload (HandleStatus completed_manager ''agent-1'' progress_frame) ''t1''
       \<noteq> GetUpload completed_manager ''t1''"
  by (simp add: example_defs model_defs)

text \<open>C5 (as amended). For every transfer record in a terminal state, \<open>HandleStatus\<close>
  applied to a Status frame naming its transfer id overwrites the bytes-uploaded and
  completed-parts counters with the frame's values and changes no other field.\<close>

theorem HandleStatus_terminal_overwrites_counters:
  assumes "GetUpload m uid = Some u" and "terminal (Status u)"
    and "CurrentUpload msg = Some cu" and "cu_UploadID cu = uid"
  shows "GetUpload (HandleStatus m clientID msg) uid
           = Some (u\<lparr>BytesUploaded := cu_BytesUploaded cu,
                     CompletedParts := cu_CompletedParts cu\<rparr>)"
  using assms HandleStatus_hit[of msg cu m u clientID] by simp

theorem HandleStatus_terminal_overwrites_counters_witness:
  "GetUpload completed_manager ''t1'' = Some (MarkCompleted example_upload 10)
   \<and> terminal (Status (MarkCompleted example_upload 10))
   \<and> GetUpload (HandleStatus completed_manager ''agent-1'' progress_frame) ''t1''
       = Some ((MarkCompleted example_upload 10)\<lparr>BytesUploaded := 5242880, CompletedParts := 1\<rparr>)"
proof -
  have a: "GetUpload completed_manager ''t1'' = Some (MarkCompleted example_upload 10)"
    by (simp add: example_defs model_defs)
  have b: "terminal (Status (MarkCompleted example_upload 10))"
    by (simp add: model_defs)
  let ?cu = "\<lparr>cu_UploadID = ''t1'', cu_FilePath = ''/data/test-file.bin'',
                             cu_FileSize = 12582912, cu_TotalParts = 20,
                             cu_CompletedParts = 1, cu_BytesUploaded = 5242880\<rparr>"
  have c: "CurrentUpload progress_frame = Some ?cu" by (simp add: progress_frame_def)
  have d: "cu_UploadID ?cu = ''t1''" by simp
  from HandleStatus_terminal_overwrites_counters[OF a b c d, of "''agent-1''"] a b
  show ?thesis by simp
qed

subsection \<open>C4: the completed-parts counter and the digest map\<close>

text \<open>C4 (counterexample). After a Status frame reporting one completed part is applied to
  a fresh record, the completed-parts counter is 1 while the digest map has no entry.\<close>

theorem Status_sets_counter_without_digests:
  "GetUpload (HandleStatus example_manager ''agent-1'' progress_frame) ''t1''
     = Some (example_upload\<lparr>BytesUploaded := 5242880, CompletedParts := 1\<rparr>)
   \<and> CompletedParts (example_upload\<lparr>BytesUploaded := 5242880, CompletedParts := 1\<rparr>) = 1
   \<and> len_ETags (example_upload\<lparr>BytesUploaded := 5242880, CompletedParts := 1\<rparr>) = 0"
  by (simp add: example_defs model_defs)

text \<open>C4 (as amended). For every transfer record, after a Status frame is applied the digest
  map is unchanged and the completed-parts counter is the count carried by the frame (when
  the frame names the record; otherwise the counter is unchanged too); after a Response is
  applied both the counter and the digest map are unchanged.\<close>

theorem counters_after_Status_and_Response:
  assumes "GetUpload m uid = Some u"
  shows "(case GetUpload (HandleStatus m clientID smsg) uid of
            None \<Rightarrow> False
          | Some u' \<Rightarrow>
              ETags u' = ETags u \<and>
              CompletedParts u' =
                (case CurrentUpload smsg of
                   Some cu \<Rightarrow> if cu_UploadID cu = uid then cu_CompletedParts cu
                              else CompletedParts u
                 | None \<Rightarrow> CompletedParts u))
       \<and> (case GetUpload (fst (HandleResponse h be scan ord_raw ord_etags now later m clientID rmsg)) uid of
            None \<Rightarrow> False
          | Some u' \<Rightarrow> ETags u' = ETags u \<and> CompletedParts u' = CompletedParts u)"
proof -
  have s: "case GetUpload (HandleStatus m clientID smsg) uid of
            None \<Rightarrow> False
          | Some u' \<Rightarrow>
              ETags u' = ETags u \<and>
              CompletedParts u' =
                (case CurrentUpload smsg of
                   Some cu \<Rightarrow> if cu_UploadID cu = uid then cu_CompletedParts cu
                              else CompletedParts u
                 | None \<Rightarrow> CompletedParts u)"
    using assms by (auto simp: HandleStatus_def GetUpload_def split: option.splits)
  obtain u' where "GetUpload (fst (HandleResponse h be scan ord_raw ord_etags now later m clientID rmsg)) uid = Some u'"
     "ETags u' = ETags u" "CompletedParts u' = CompletedParts u"
    using HandleResponse_keeps_counters[OF assms] by blast
  then show ?thesis using s by simp
qed

theorem counters_after_Status_and_Response_witness:
  "GetUpload example_manager ''t1'' = Some example_upload
   \<and> (case GetUpload (HandleStatus example_manager ''agent-1'' progress_frame) ''t1'' of
            None \<Rightarrow> False
          | Some u' \<Rightarrow> ETags u' = ETags example_upload \<and> CompletedParts u' = 1)
   \<and> (case GetUpload (fst (HandleResponse example_handler accepting_backend example_scan
                 (\<lambda>xs. xs) rev 20 21 example_manager ''agent-1'' success_response)) ''t1'' of
            None \<Rightarrow> False
          | Some u' \<Rightarrow> ETags u' = ETags example_upload \<and> CompletedParts u' = CompletedParts example_upload)"
proof -
  have a: "GetUpload example_manager ''t1'' = Some example_upload"
    by (simp add: example_defs model_defs)
  have c: "CurrentUpload progress_frame = Some \<lparr>cu_UploadID = ''t1'', cu_FilePath = ''/data/test-file.bin'',
                             cu_FileSize = 12582912, cu_TotalParts = 20,
                             cu_CompletedParts = 1, cu_BytesUploaded = 5242880\<rparr>"
    by (simp add: progress_frame_def)
  from counters_after_Status_and_Response[OF a, where clientID = "''agent-1''"
      and smsg = progress_frame and h = example_handler and be = accepting_backend
      and scan = example_scan and ord_raw = "\<lambda>xs. xs" and ord_etags = rev and now = 20
      and later = 21 and rmsg = success_response] a c
  show ?thesis by (auto split: option.splits)
qed

subsection \<open>C3: part order at completion\<close>

text \<open>C3. Whatever the scanner of the keys and whatever the order in which the runtime
  iterates over the decoded \<open>etags\<close> object and over the ETag map, every call of
  \<open>CompleteMultipartUpload\<close> made by \<open>HandleResponse\<close> gets a part list in strictly
  ascending order of part number.\<close>

theorem HandleResponse_completes_with_ascending_parts:
  assumes "is_iteration_order ord_etags"
    and "S3_CompleteMultipartUpload key s3UploadID parts
           \<in> set (snd (HandleResponse h be scan ord_raw ord_etags now later m clientID msg))"
  shows "sorted_wrt (<) (map cp_PartNumber parts)"
proof -
  from HandleResponse_calls[OF assms(2)]
  obtain payload where "parts = completed_parts ord_etags (extract_etags scan ord_raw payload)"
    by auto
  then show ?thesis using strict_cp[OF assms(1) distinct_extract] by simp
qed

theorem HandleResponse_completes_with_ascending_parts_witness:
  "is_iteration_order (rev :: (int \<times> string) list \<Rightarrow> (int \<times> string) list)
   \<and> S3_CompleteMultipartUpload ''k'' ''s3-session''
        [\<lparr>cp_PartNumber = 1, cp_ETag = ''e1''\<rparr>, \<lparr>cp_PartNumber = 2, cp_ETag = ''e2''\<rparr>]
        \<in> set (snd (HandleResponse example_handler accepting_backend example_scan (\<lambda>xs. xs) rev
                      20 21 example_manager ''agent-1'' success_response))
   \<and> sorted_wrt (<) (map cp_PartNumber
        [\<lparr>cp_PartNumber = 1, cp_ETag = ''e1''\<rparr>, \<lparr>cp_PartNumber = 2, cp_ETag = ''e2''\<rparr>])"
proof -
  have a: "is_iteration_order (rev :: (int \<times> string) list \<Rightarrow> (int \<times> string) list)"
    by (simp add: is_iteration_order_def)
  have b: "S3_CompleteMultipartUpload ''k'' ''s3-session''
        [\<lparr>cp_PartNumber = 1, cp_ETag = ''e1''\<rparr>, \<lparr>cp_PartNumber = 2, cp_ETag = ''e2''\<rparr>]
        \<in> set (snd (HandleResponse example_handler accepting_backend example_scan (\<lambda>xs. xs) rev
                      20 21 example_manager ''agent-1'' success_response))"
    by (simp add: example_defs model_defs Let_def)
  from HandleResponse_completes_with_ascending_parts[OF a b] a b show ?thesis by blast
qed

subsection \<open>C2: a second success Response for a Completed transfer\<close>

text \<open>C2 (counterexample). A success Response completes the transfer and calls
  \<open>CompleteMultipartUpload\<close>; the same Response applied again to the now Completed record
  calls \<open>CompleteMultipartUpload\<close> a second time for the same transfer and moves the
  record's end time from 10 to 20.\<close>

theorem completion_invoked_twice:
  "HandleResponse example_handler accepting_backend example_scan id id 10 11
      example_manager ''agent-1'' success_response
     = (completed_manager,
        [S3_CompleteMultipartUpload ''k'' ''s3-session''
           [\<lparr>cp_PartNumber = 1, cp_ETag = ''e1''\<rparr>, \<lparr>cp_PartNumber = 2, cp_ETag = ''e2''\<rparr>]])
   \<and> GetUpload completed_manager ''t1'' = Some (MarkCompleted example_upload 10)
   \<and> HandleResponse example_handler accepting_backend example_scan id id 20 21
      completed_manager ''agent-1'' success_response
     = (RegisterUpload NewManager (MarkCompleted example_upload 20),
        [S3_CompleteMultipartUpload ''k'' ''s3-session''
           [\<lparr>cp_PartNumber = 1, cp_ETag = ''e1''\<rparr>, \<lparr>cp_PartNumber = 2, cp_ETag = ''e2''\<rparr>]])
   \<and> MarkCompleted example_upload 20 \<noteq> MarkCompleted example_upload 10"
  by (simp add: example_defs model_defs Let_def)

text \<open>C2 (as amended). For every transfer record already Completed, a further success
  Response naming its transfer id re-stamps the end time and, when it carries at least one
  readable digest entry, invokes \<open>CompleteMultipartUpload\<close> again with the sorted parts:
  the record stays Completed if that call succeeds (or no digest was carried) and becomes
  Failed, with the error text of the call, if it fails. Nothing else changes.\<close>

theorem duplicate_success_on_Completed:
  assumes "GetUpload m uid = Some u" and "Status u = UploadStateCompleted"
    and "rm_Action msg = CommandActionDownloadFile"
    and "rm_Status msg = ResponseStatusSuccess"
    and "rm_Payload msg = JObj payload"
    and "map_of payload ''upload_id'' = Some (JStr uid)"
  shows "HandleResponse h be scan ord_raw ord_etags now later m clientID msg =
           (if extract_etags scan ord_raw payload = []
            then (m\<lparr>uploads := (uploads m)(uid \<mapsto> u\<lparr>EndTime := Some now\<rparr>)\<rparr>, [])
            else
              (m\<lparr>uploads := (uploads m)(uid \<mapsto>
                   (case sdk_CompleteMultipartUpload be (bucket (s3Client h)) (S3Key u) (S3UploadID u)
                           (map (\<lambda>part. (cp_ETag part, to_int32 (cp_PartNumber part)))
                              (completed_parts ord_etags (extract_etags scan ord_raw payload))) of
                      None \<Rightarrow> u\<lparr>EndTime := Some now\<rparr>
                    | Some e \<Rightarrow> u\<lparr>Status := UploadStateFailed,
                                   Error := ''failed to complete multipart upload: '' @ e,
                                   EndTime := Some later\<rparr>))\<rparr>,
               [S3_CompleteMultipartUpload (S3Key u) (S3UploadID u)
                  (completed_parts ord_etags (extract_etags scan ord_raw payload))]))"
proof -
  have r: "u\<lparr>Status := UploadStateCompleted, EndTime := Some t\<rparr> = u\<lparr>EndTime := Some t\<rparr>" for t
    using assms(2) by (cases u) auto
  show ?thesis
    using assms
    by (auto simp: HandleResponse_def Let_def MarkCompleted_def MarkFailed_def GetS3UploadID_def
          CompleteMultipartUpload_def error_text_def r split: option.splits)
qed

theorem duplicate_success_on_Completed_witness:
  "GetUpload completed_manager ''t1'' = Some (MarkCompleted example_upload 10)
   \<and> Status (MarkCompleted example_upload 10) = UploadStateCompleted
   \<and> rm_Action success_response = CommandActionDownloadFile
   \<and> rm_Status success_response = ResponseStatusSuccess
   \<and> rm_Payload success_response = JObj [(''upload_id'', JStr ''t1''),
                         (''etags'', JObj [(''2'', JStr ''e2''), (''1'', JStr ''e1'')])]
   \<and> map_of [(''upload_id'', JStr ''t1''),
                         (''etags'', JObj [(''2'', JStr ''e2''), (''1'', JStr ''e1'')])] ''upload_id'' = Some (JStr ''t1'')
   \<and> HandleResponse example_handler accepting_backend example_scan (\<lambda>xs. xs) (\<lambda>xs. xs) 20 21
        completed_manager ''agent-1'' success_response
       = (completed_manager\<lparr>uploads := (uploads completed_manager)(''t1'' \<mapsto>
              (MarkCompleted example_upload 10)\<lparr>EndTime := Some 20\<rparr>)\<rparr>,
          [S3_CompleteMultipartUpload ''k'' ''s3-session''
           [\<lparr>cp_PartNumber = 1, cp_ETag = ''e1''\<rparr>, \<lparr>cp_PartNumber = 2, cp_ETag = ''e2''\<rparr>]])"
proof -
  let ?payload = "[(''upload_id'', JStr ''t1''),
                         (''etags'', JObj [(''2'', JStr ''e2''), (''1'', JStr ''e1'')])]"
  have a: "GetUpload completed_manager ''t1'' = Some (MarkCompleted example_upload 10)"
    by (simp add: example_defs model_defs)
  have b: "Status (MarkCompleted example_upload 10) = UploadStateCompleted"
    by (simp add: MarkCompleted_def)
  have c: "rm_Action success_response = CommandActionDownloadFile"
    by (simp add: success_response_def)
  have d: "rm_Status success_response = ResponseStatusSuccess"
    by (simp add: success_response_def)
  have e: "rm_Payload success_response = JObj ?payload"
    by (simp add: success_response_def)
  have f: "map_of ?payload ''upload_id'' = Some (JStr ''t1'')" by simp
  have g: "extract_etags example_scan (\<lambda>xs. xs) ?payload = [(2, ''e2''), (1, ''e1'')]"
    by (simp add: extract_etags_def example_scan_def)
  have k: "completed_parts (\<lambda>xs. xs) [(2, ''e2''), (1, ''e1'')]
            = [\<lparr>cp_PartNumber = 1, cp_ETag = ''e1''\<rparr>, \<lparr>cp_PartNumber = 2, cp_ETag = ''e2''\<rparr>]"
    by (simp add: completed_parts_def)
  have s: "S3Key (MarkCompleted example_upload 10) = ''k''"
     "S3UploadID (MarkCompleted example_upload 10) = ''s3-session''"
    by (simp_all add: example_defs model_defs)
  have n: "sdk_CompleteMultipartUpload accepting_backend b' k' u' ps = None" for b' k' u' ps
    by (simp add: accepting_backend_def)
  from duplicate_success_on_Completed[OF a b c d e f, where h = example_handler
      and be = accepting_backend and scan = example_scan and ord_raw = "\<lambda>xs. xs"
      and ord_etags = "\<lambda>xs. xs" and now = 20 and later = 21 and clientID = "''agent-1''"]
  show ?thesis using a b c d e f by (simp add: g k s n)
qed

subsection \<open>C7: one handle per agent id\<close>

lemma clients_HandleStatus: "clients (HandleStatus m c msg) = clients m"
  by (simp add: HandleStatus_def GetUpload_def split: option.splits)

lemma clients_HandleResponse:
  "clients (fst (HandleResponse h be scan o1 o2 now later m c msg)) = clients m"
  by (simp add: HandleResponse_def GetUpload_def Let_def split: option.splits json.splits prod.splits)

lemma reachable_keyed: "reachable m \<Longrightarrow> \<forall>k h. clients m k = Some h \<longrightarrow> cc_ClientID h = k"
proof (induction rule: reachable.induct)
  case reachable_New
  then show ?case by (simp add: NewManager_def)
next
  case (reachable_Register m clientID c now)
  then show ?case by (simp add: RegisterClient_def NewClientConnection_def Let_def)
next
  case (reachable_Unregister m clientID)
  then show ?case by (auto simp: UnregisterClient_def split: option.splits)
next
  case (reachable_Send m WriteJSON clientID cmd now)
  then show ?case
    by (auto simp: SendCommand_def GetClient_def UpdateActivity_def Let_def split: option.splits if_splits)
next
  case (reachable_Upload m upload)
  then show ?case by (simp add: RegisterUpload_def)
next
  case (reachable_Status m clientID smsg)
  then show ?case by (simp add: clients_HandleStatus)
next
  case (reachable_Response m h be scan ord_raw ord_etags now later clientID rmsg)
  then show ?case by (simp add: clients_HandleResponse)
qed

lemma handles_for_keyed:
  assumes "\<forall>k h. clients m k = Some h \<longrightarrow> cc_ClientID h = k"
  shows "handles_for m k = (case clients m k of None \<Rightarrow> {} | Some h \<Rightarrow> {h})"
  using assms by (auto simp: handles_for_def split: option.splits)

text \<open>C7. In every reachable state the registry holds at most one handle for any agent
  id; registering a connection for an id that already has a handle closes the old
  connection, and afterwards the registry holds exactly one handle for that id, the one of
  the new connection.\<close>

theorem one_handle_per_agent:
  assumes "reachable m" and "clients m clientID = Some old"
  shows "finite (handles_for m k) \<and> card (handles_for m k) \<le> 1
       \<and> snd (RegisterClient m clientID c now) = [Connection old]
       \<and> handles_for (fst (RegisterClient m clientID c now)) clientID
           = {NewClientConnection clientID c now}
       \<and> card (handles_for (fst (RegisterClient m clientID c now)) clientID) = 1"
proof -
  have k: "\<forall>k h. clients m k = Some h \<longrightarrow> cc_ClientID h = k"
    using reachable_keyed[OF assms(1)] .
  have r: "reachable (fst (RegisterClient m clientID c now))"
    using assms(1) by (rule reachable_Register)
  have k': "\<forall>k h. clients (fst (RegisterClient m clientID c now)) k = Some h \<longrightarrow> cc_ClientID h = k"
    using reachable_keyed[OF r] .
  have a: "finite (handles_for m k) \<and> card (handles_for m k) \<le> 1"
    by (simp add: handles_for_keyed[OF k] split: option.splits)
  have b: "snd (RegisterClient m clientID c now) = [Connection old]"
    using assms(2) by (simp add: RegisterClient_def Let_def)
  have d: "handles_for (fst (RegisterClient m clientID c now)) clientID
           = {NewClientConnection clientID c now}"
    by (simp add: handles_for_keyed[OF k'] ) (simp add: RegisterClient_def Let_def)
  show ?thesis using a b d by simp
qed

theorem one_handle_per_agent_witness:
  "reachable (fst (RegisterClient NewManager ''agent-1'' 1 0))
   \<and> clients (fst (RegisterClient NewManager ''agent-1'' 1 0)) ''agent-1''
        = Some (NewClientConnection ''agent-1'' 1 0)
   \<and> finite (handles_for (fst (RegisterClient NewManager ''agent-1'' 1 0)) ''agent-1'')
   \<and> card (handles_for (fst (RegisterClient NewManager ''agent-1'' 1 0)) ''agent-1'') \<le> 1
   \<and> snd (RegisterClient (fst (RegisterClient NewManager ''agent-1'' 1 0)) ''agent-1'' 2 7) = [1]
   \<and> handles_for (fst (RegisterClient (fst (RegisterClient NewManager ''agent-1'' 1 0)) ''agent-1'' 2 7))
        ''agent-1'' = {NewClientConnection ''agent-1'' 2 7}
   \<and> card (handles_for (fst (RegisterClient (fst (RegisterClient NewManager ''agent-1'' 1 0)) ''agent-1'' 2 7))
        ''agent-1'') = 1"
proof -
  have a: "reachable (fst (RegisterClient NewManager ''agent-1'' 1 0))"
    by (rule reachable_Register) (rule reachable_New)
  have b: "clients (fst (RegisterClient NewManager ''agent-1'' 1 0)) ''agent-1''
        = Some (NewClientConnection ''agent-1'' 1 0)"
    by (simp add: RegisterClient_def Let_def)
  have c: "Connection (NewClientConnection ''agent-1'' 1 0) = 1"
    by (simp add: NewClientConnection_def)
  from one_handle_per_agent[OF a b, where k = "''agent-1''" and c = 2 and now = 7] a b c
  show ?thesis by simp
qed

text \<open>A remark on \<open>HandleClient\<close>: it registers on entry and defers
  \<open>UnregisterClient(clientID)\<close> to its exit. When the session of the superseded connection
  ends after the second registration, that deferred call removes, and closes, the handle
  of the new connection: the registry then holds no handle for the id.\<close>

lemma superseded_session_exit_drops_new_handle:
  "UnregisterClient (fst (RegisterClient (fst (RegisterClient m clientID c1 t1)) clientID c2 t2)) clientID
     = (m\<lparr>clients := (clients m)(clientID := None)\<rparr>, [c2])"
  by (simp add: UnregisterClient_def RegisterClient_def Let_def NewClientConnection_def)

subsection \<open>C6: reconnect backoff of the agent\<close>

lemma wrap64_id: "- (2 ^ 63) \<le> x \<Longrightarrow> x < 2 ^ 63 \<Longrightarrow> wrap64 x = x"
  by (simp add: wrap64_def)

lemma next_delay_min:
  assumes "0 < d" "d \<le> maxReconnect c" "maxReconnect c < 2 ^ 62"
  shows "next_delay c d = min (d * 2) (maxReconnect c)"
proof -
  have "wrap64 (d * 2) = d * 2" using assms by (intro wrap64_id) auto
  then show ?thesis by (simp add: next_delay_def Let_def min_def)
qed

lemma Start_loop_failures_then:
  assumes "0 < d" "d \<le> maxReconnect c" "maxReconnect c < 2 ^ 62"
  shows "Start_loop c d (replicate n DialFailed_WaitElapsed @ rest)
           = (map (\<lambda>k. Backoff (min (d * 2 ^ k) (maxReconnect c))) [0..<n]
                @ fst (Start_loop c (min (d * 2 ^ n) (maxReconnect c)) rest),
              snd (Start_loop c (min (d * 2 ^ n) (maxReconnect c)) rest))"
  using assms
proof (induction n arbitrary: d)
  case 0
  then show ?case by simp
next
  case (Suc n)
  let ?d = "next_delay c d"
  have nd: "?d = min (d * 2) (maxReconnect c)" using Suc.prems by (rule next_delay_min)
  have p: "0 < ?d" "?d \<le> maxReconnect c" using Suc.prems nd by auto
  note ih = Suc.IH[OF p Suc.prems(3)]
  have m: "min (?d * 2 ^ k) (maxReconnect c) = min (d * 2 ^ Suc k) (maxReconnect c)" for k
  proof (cases "d * 2 \<le> maxReconnect c")
    case True
    then have "?d = d * 2" using nd by simp
    then show ?thesis by (simp add: mult.assoc)
  next
    case False
    then have e: "?d = maxReconnect c" using nd by simp
    have one: "(1::int) \<le> 2 ^ k" by simp
    have pos: "0 < maxReconnect c" using Suc.prems by linarith
    have "maxReconnect c * 1 \<le> maxReconnect c * 2 ^ k"
      using one pos by (intro mult_left_mono) auto
    then have a: "min (maxReconnect c * 2 ^ k) (maxReconnect c) = maxReconnect c" by simp
    have "(d * 2) * 1 \<le> (d * 2) * 2 ^ k"
      using one Suc.prems(1) by (intro mult_left_mono) auto
    then have "maxReconnect c \<le> d * 2 ^ Suc k" using False by (simp add: mult.assoc)
    then have b: "min (d * 2 ^ Suc k) (maxReconnect c) = maxReconnect c" by simp
    show ?thesis using a b e by simp
  qed
  have l: "[0..<Suc n] = 0 # map Suc [0..<n]"
    by (simp add: upt_conv_Cons map_Suc_upt del: upt_Suc)
  show ?case
    using Suc.prems
    by (simp add: ih m l comp_def del: upt_Suc)
qed

text \<open>C6 (counterexample). With the default delays (5 s, at most 5 min) the client waits
  5 s after its first failed dial, not \<open>min (5 s * 2 ^ 1) (5 min)\<close> = 10 s.\<close>

theorem first_backoff_wait_is_base:
  "fst (Start default_client (replicate 1 DialFailed_WaitElapsed)) ! (1 - 1) = Backoff 5000000000
   \<and> reconnectDelay default_client = 5000000000
   \<and> maxReconnect default_client = 300000000000
   \<and> Backoff 5000000000
        \<noteq> Backoff (min (reconnectDelay default_client * 2 ^ 1) (maxReconnect default_client))"
  by (simp add: default_client_def NewClient_def Start_def next_delay_def wrap64_def)

text \<open>C6 (as amended). Let the configured delay be positive, at most the configured
  maximum, and the maximum below \<open>2 ^ 62\<close> ns. For every \<open>N \<ge> 1\<close>, the wait begun
  after the \<open>N\<close>-th consecutive dial failure is \<open>min (base * 2 ^ (N - 1)) cap\<close>; the delay
  kept for the wait after that one is \<open>min (base * 2 ^ N) cap\<close>; and after a successful
  connect the waits start again from \<open>base\<close>.\<close>

theorem reconnect_backoff:
  assumes "0 < reconnectDelay c" and "reconnectDelay c \<le> maxReconnect c"
    and "maxReconnect c < 2 ^ 62" and "1 \<le> N"
  shows "fst (Start c (replicate N DialFailed_WaitElapsed)) ! (N - 1)
           = Backoff (min (reconnectDelay c * 2 ^ (N - 1)) (maxReconnect c))
       \<and> snd (Start c (replicate N DialFailed_WaitElapsed))
           = min (reconnectDelay c * 2 ^ N) (maxReconnect c)
       \<and> fst (Start c (replicate N DialFailed_WaitElapsed
                         @ [Connected_ThenDropped, DialFailed_WaitElapsed]))
           = map (\<lambda>k. Backoff (min (reconnectDelay c * 2 ^ k) (maxReconnect c))) [0..<N]
               @ [Sleep (reconnectDelay c), Backoff (reconnectDelay c)]"
proof -
  note f = Start_loop_failures_then[OF assms(1,2,3)]
  have a: "Start c (replicate N DialFailed_WaitElapsed)
            = (map (\<lambda>k. Backoff (min (reconnectDelay c * 2 ^ k) (maxReconnect c))) [0..<N],
               min (reconnectDelay c * 2 ^ N) (maxReconnect c))"
    using f[of N "[]"] by (simp add: Start_def)
  have n: "N - 1 < N" using assms(4) by simp
  have b: "fst (Start c (replicate N DialFailed_WaitElapsed)) ! (N - 1)
           = Backoff (min (reconnectDelay c * 2 ^ (N - 1)) (maxReconnect c))"
    unfolding a using n by (simp del: upt_Suc)
  have d: "fst (Start c (replicate N DialFailed_WaitElapsed
                         @ [Connected_ThenDropped, DialFailed_WaitElapsed]))
           = map (\<lambda>k. Backoff (min (reconnectDelay c * 2 ^ k) (maxReconnect c))) [0..<N]
               @ [Sleep (reconnectDelay c), Backoff (reconnectDelay c)]"
    using f[of N "[Connected_ThenDropped, DialFailed_WaitElapsed]"]
    by (simp add: Start_def split: prod.splits)
  show ?thesis using a b d by simp
qed

theorem reconnect_backoff_witness:
  "0 < reconnectDelay default_client
   \<and> reconnectDelay default_client \<le> maxReconnect default_client
   \<and> maxReconnect default_client < 2 ^ 62 \<and> (1::nat) \<le> 3
   \<and> fst (Start default_client (replicate 3 DialFailed_WaitElapsed)) ! (3 - 1) = Backoff 20000000000
   \<and> snd (Start default_client (replicate 3 DialFailed_WaitElapsed)) = 40000000000
   \<and> fst (Start default_client (replicate 3 DialFailed_WaitElapsed
                         @ [Connected_ThenDropped, DialFailed_WaitElapsed]))
       = [Backoff 5000000000, Backoff 10000000000, Backoff 20000000000,
          Sleep 5000000000, Backoff 5000000000]"
proof -
  have r: "reconnectDelay default_client = 5000000000"
    and m: "maxReconnect default_client = 300000000000"
    by (simp_all add: default_client_def NewClient_def)
  have a: "0 < reconnectDelay default_client" by (simp add: r)
  have b: "reconnectDelay default_client \<le> maxReconnect default_client" by (simp add: r m)
  have c: "maxReconnect default_client < 2 ^ 62" by (simp add: m)
  have d: "(1::nat) \<le> 3" by simp
  have u: "[0..<3] = [0, 1, 2]" by (simp add: upt_rec)
  from reconnect_backoff[OF a b c d] a b c
  show ?thesis by (simp add: r m u)
qed

subsection \<open>C8: triggering a transfer\<close>

lemma copy_urls: "map (\<lambda>url. \<lparr>PartNumber = PartNumber url, URL = URL url\<rparr>) xs = xs"
  by (induction xs) auto

lemma length_EncodeToString: "length (EncodeToString bs) = 2 * length bs"
  by (induction bs) (auto simp: EncodeToString_def)

lemma generateUploadID_length: "generateUploadID rr = Inr uploadID \<Longrightarrow> length uploadID = 32"
  by (auto simp: generateUploadID_def length_EncodeToString split: sum.splits)


lemma SendCommand_sent:
  assumes "SendCommand m W cid cmd now = (err, m2, sent)" "(c, cmd') \<in> set sent"
  shows "err = None \<and> Payload cmd' = Payload cmd \<and> sent = [(c, cmd')]"
  using assms by (auto simp: SendCommand_def Let_def split: option.splits)

lemma SendCommand_None:
  assumes "SendCommand m W cid cmd now = (None, m2, sent)"
  shows "\<exists>c cmd'. sent = [(c, cmd')] \<and> Payload cmd' = Payload cmd \<and> uploads m2 = uploads m"
  using assms by (auto simp: SendCommand_def Let_def split: option.splits)


lemma TriggerDownload_sent:
  assumes "(c, cmd) \<in> set (snd (snd (snd (TriggerDownload h env m r))))"
  shows "\<exists>uploadID mu calls.
           generateUploadID (env_rand env) = Inr uploadID
         \<and> InitiateMultipartUpload (s3Client h) (env_s3 env)
               \<lparr>cfg_Key = baseS3Path h @ ''/'' @ path_Base (req_Path r) @ ''/'' @ env_timestamp env
                            @ ''-'' @ path_Base (if req_FilePath r = [] then ''/data/test-file.bin'' else req_FilePath r),
                cfg_FileSize = estimatedFileSize,
                cfg_ChunkSize = chunkSize h, cfg_Metadata = req_Metadata r\<rparr> = (Inr mu, calls)
         \<and> Payload cmd = \<lparr>dp_FilePath = (if req_FilePath r = [] then ''/data/test-file.bin'' else req_FilePath r),
                           dp_UploadConfig = \<lparr>uc_UploadID = uploadID,
                                         uc_Bucket = mu_Bucket mu,
                                         uc_Key = mu_Key mu,
                                         uc_Region = [],
                                         uc_ChunkSize = chunkSize h,
                                         PresignedURLs = mu_PresignedURLs mu\<rparr>,
                                       dp_Metadata = req_Metadata r\<rparr>"
  using assms
  by (auto simp: TriggerDownload_def Let_def copy_urls
        split: if_splits sum.splits prod.splits option.splits dest!: SendCommand_sent)

lemma TriggerDownload_no_frames_unless_connected:
  assumes "(c, cmd) \<in> set (snd (snd (snd (TriggerDownload h env m r))))"
  shows "req_Method r = ''POST'' \<and> path_Base (req_Path r) \<noteq> []
       \<and> path_Base (req_Path r) \<noteq> ''trigger-download'' \<and> IsClientConnected m (path_Base (req_Path r))"
  using assms by (auto simp: TriggerDownload_def Let_def split: if_splits)


lemma ex_path: "path_Base ''/trigger-download/agent-1'' = ''agent-1''"
  by (simp add: path_Base_def)

lemma ex_id: "generateUploadID (env_rand example_env) = Inr ''00112233445566778899aabbccddeeff''"
  by (simp add: generateUploadID_def example_env_def EncodeToString_def hex_digit_def)


lemma ex_presign: "presign_parts c accepting_backend k u 0 20
   = Inr (map (\<lambda>n. \<lparr>PartNumber = n, URL = ''https://s3/part''\<rparr>) [1..20])"
  by (simp add: eval_nat_numeral accepting_backend_def upto_rec1)


lemma TriggerDownload_success:
  assumes "req_Method r = ''POST''" and "path_Base (req_Path r) \<noteq> []"
    and "path_Base (req_Path r) \<noteq> ''trigger-download''"
    and "IsClientConnected m (path_Base (req_Path r))"
    and "env_rand env = Inr bytes"
    and "fst (InitiateMultipartUpload (s3Client h) (env_s3 env)
               \<lparr>cfg_Key = key, cfg_FileSize = estimatedFileSize,
                cfg_ChunkSize = chunkSize h, cfg_Metadata = req_Metadata r\<rparr>) = Inr mu"
    and "key = baseS3Path h @ ''/'' @ path_Base (req_Path r) @ ''/'' @ env_timestamp env @ ''-''
                 @ path_Base (if req_FilePath r = [] then ''/data/test-file.bin'' else req_FilePath r)"
    and "\<forall>c cmd. env_WriteJSON env c cmd = None"
  shows "fst (TriggerDownload h env m r)
           = TriggerDownloadResponse 200 True (''Download triggered for client '' @ path_Base (req_Path r))
               (EncodeToString (take 16 (bytes @ replicate 16 0))) key"
  using assms
  by (auto simp: TriggerDownload_def Let_def generateUploadID_def SendCommand_def GetClient_def
        IsClientConnected_def RegisterUpload_def
        split: sum.splits prod.splits option.splits)

lemma ex_initiate:
  "fst (InitiateMultipartUpload (s3Client example_handler) accepting_backend
          \<lparr>cfg_Key = k, cfg_FileSize = estimatedFileSize,
           cfg_ChunkSize = chunkSize example_handler, cfg_Metadata = md\<rparr>)
     = Inr \<lparr>mu_UploadID = ''s3-session'', mu_Bucket = ''uploads-bucket'', mu_Key = k,
            mu_TotalParts = 20, mu_ChunkSize = 5242880,
            mu_PresignedURLs = map (\<lambda>n. \<lparr>PartNumber = n, URL = ''https://s3/part''\<rparr>) [1..20]\<rparr>"
proof -
  have t: "total_parts estimatedFileSize 5242880 = 20"
    by (simp add: total_parts_def go_div_def go_mod_def estimatedFileSize_def)
  have c: "sdk_CreateMultipartUpload accepting_backend b k' md' = Inr ''s3-session''" for b k' md'
    by (simp add: accepting_backend_def)
  show ?thesis
    unfolding InitiateMultipartUpload_def
    by (simp add: example_handler_def NewHandler_def c t Let_def ex_presign example_s3_def)
qed




subsection \<open>C9: the size of the ticket\<close>

lemma presign_parts_numbers:
  "presign_parts c be key uid i n = Inr urls \<Longrightarrow> map PartNumber urls = [i + 1..i + int n]"
proof (induction n arbitrary: i urls)
  case 0
  then show ?case by simp
next
  case (Suc n)
  from Suc.prems obtain url rest where
    r: "presign_parts c be key uid (i + 1) n = Inr rest"
    and u: "urls = \<lparr>PartNumber = i + 1, URL = url\<rparr> # rest"
    by (auto simp: Let_def split: sum.splits)
  have "map PartNumber rest = [i + 1 + 1..i + 1 + int n]" using Suc.IH[OF r] .
  moreover have "[i + 1..i + int (Suc n)] = (i + 1) # [i + 1 + 1..i + 1 + int n]"
    by (subst upto_rec1) (auto simp: algebra_simps)
  ultimately show ?case using u by simp
qed

lemma Initiate_ticket:
  assumes "InitiateMultipartUpload c be cfg = (Inr mu, calls)"
  shows "map PartNumber (mu_PresignedURLs mu) = [1..total_parts (cfg_FileSize cfg) (cfg_ChunkSize cfg)]
       \<and> mu_TotalParts mu = total_parts (cfg_FileSize cfg) (cfg_ChunkSize cfg)"
  using assms
  by (auto simp: InitiateMultipartUpload_def Let_def
        split: sum.splits if_splits prod.splits dest!: presign_parts_numbers)

lemma total_parts_ceil:
  assumes "0 < c" "0 \<le> a"
  shows "total_parts a c = (a + c - 1) div c"
proof -
  have d: "go_div a c = a div c" using assms by (auto simp: go_div_def sgn_if)
  have m: "go_mod a c = a mod c" unfolding go_mod_def d by (simp add: minus_mult_div_eq_mod)
  have e: "a + c - 1 = (a div c) * c + (a mod c + c - 1)" by (simp add: algebra_simps)
  show ?thesis
  proof (cases "a mod c = 0")
    case True
    have "(a + c - 1) div c = a div c + (c - 1) div c"
      using True e assms by (metis add.commute add.left_neutral div_mult_self3 less_le not_less_iff_gr_or_eq add_diff_eq)
    moreover have "(c - 1) div c = 0" using assms by (simp add: div_pos_pos_trivial)
    ultimately show ?thesis using True by (simp add: total_parts_def d m Let_def)
  next
    case False
    have "0 \<le> a mod c" and r2: "a mod c < c" using assms(1) by simp_all
    then have r: "0 < a mod c" "a mod c < c" using False by linarith+
    have "(a mod c + c - 1) div c = 1"
      using r by (intro int_div_pos_eq[where r = "a mod c - 1"]) auto
    then have "(a + c - 1) div c = a div c + 1"
      using e assms by (metis add.commute div_mult_self3 less_le not_less_iff_gr_or_eq)
    then show ?thesis using False by (simp add: total_parts_def d m Let_def)
  qed
qed

lemma TriggerDownload_ticket:
  assumes "(c, cmd) \<in> set (snd (snd (snd (TriggerDownload h env m r))))"
  shows "map PartNumber (PresignedURLs (dp_UploadConfig (Payload cmd)))
           = [1..total_parts estimatedFileSize (chunkSize h)]"
proof -
  from TriggerDownload_sent[OF assms] obtain uploadID mu calls key where
    i: "InitiateMultipartUpload (s3Client h) (env_s3 env)
               \<lparr>cfg_Key = key, cfg_FileSize = estimatedFileSize,
                cfg_ChunkSize = chunkSize h, cfg_Metadata = req_Metadata r\<rparr> = (Inr mu, calls)"
    and p: "PresignedURLs (dp_UploadConfig (Payload cmd)) = mu_PresignedURLs mu"
    by auto
  from Initiate_ticket[OF i] p show ?thesis by simp
qed

lemma TriggerDownload_success_sent:
  assumes "fst (TriggerDownload h env m r) = TriggerDownloadResponse code ok msg uploadID key"
  shows "\<exists>c cmd. snd (snd (snd (TriggerDownload h env m r))) = [(c, cmd)]"
  using assms
  by (auto simp: TriggerDownload_def Let_def sendError_def
        split: if_splits sum.splits prod.splits option.splits dest!: SendCommand_None)

lemma ex_12mb:
  "fst (TriggerDownload example_handler example_env connected_manager request_12mb)
     = TriggerDownloadResponse 200 True ''Download triggered for client agent-1''
         ''00112233445566778899aabbccddeeff'' ''uploads/agent-1/20261031-120000-file-of-12MB.bin''"
proof -
  have a: "req_Method request_12mb = ''POST''" by (simp add: request_12mb_def)
  have p: "path_Base (req_Path request_12mb) = ''agent-1''"
    by (simp add: request_12mb_def ex_path)
  have b: "path_Base (req_Path request_12mb) \<noteq> []" by (simp add: p)
  have c: "path_Base (req_Path request_12mb) \<noteq> ''trigger-download''" by (simp add: p)
  have l: "IsClientConnected connected_manager (path_Base (req_Path request_12mb))"
    by (simp add: p connected_manager_def IsClientConnected_def RegisterClient_def Let_def)
  let ?bytes = "[0, 17, 34, 51, 68, 85, 102, 119, 136, 153, 170, 187, 204, 221, 238, 255] :: nat list"
  have r: "env_rand example_env = Inr ?bytes" by (simp add: example_env_def)
  have e: "EncodeToString ?bytes = ''00112233445566778899aabbccddeeff''"
    by (simp add: EncodeToString_def hex_digit_def)
  have w: "\<forall>c cmd. env_WriteJSON example_env c cmd = None" by (simp add: example_env_def)
  have s3: "env_s3 example_env = accepting_backend" by (simp add: example_env_def)
  have k: "baseS3Path example_handler @ ''/'' @ path_Base (req_Path request_12mb) @ ''/''
              @ env_timestamp example_env @ ''-''
              @ path_Base (if req_FilePath request_12mb = [] then ''/data/test-file.bin''
                           else req_FilePath request_12mb)
           = ''uploads/agent-1/20261031-120000-file-of-12MB.bin''"
    by (simp add: p) (simp add: example_handler_def NewHandler_def example_env_def path_Base_def
          request_12mb_def)
  have i: "fst (InitiateMultipartUpload (s3Client example_handler) (env_s3 example_env)
               \<lparr>cfg_Key = ''uploads/agent-1/20261031-120000-file-of-12MB.bin'',
                cfg_FileSize = estimatedFileSize,
                cfg_ChunkSize = chunkSize example_handler,
                cfg_Metadata = req_Metadata request_12mb\<rparr>)
          = Inr \<lparr>mu_UploadID = ''s3-session'', mu_Bucket = ''uploads-bucket'',
            mu_Key = ''uploads/agent-1/20261031-120000-file-of-12MB.bin'',
            mu_TotalParts = 20, mu_ChunkSize = 5242880,
            mu_PresignedURLs = map (\<lambda>n. \<lparr>PartNumber = n, URL = ''https://s3/part''\<rparr>) [1..20]\<rparr>"
    unfolding s3 by (rule ex_initiate)
  from TriggerDownload_success[OF a b c l r i k[symmetric] w] show ?thesis
    by (simp add: p e)
qed

lemma ex_trigger:
  "fst (TriggerDownload example_handler example_env connected_manager trigger_request)
     = TriggerDownloadResponse 200 True ''Download triggered for client agent-1''
         ''00112233445566778899aabbccddeeff'' ''uploads/agent-1/20261031-120000-test-file.bin''"
proof -
  have a: "req_Method trigger_request = ''POST''" by (simp add: trigger_request_def)
  have p: "path_Base (req_Path trigger_request) = ''agent-1''"
    by (simp add: trigger_request_def ex_path)
  have b: "path_Base (req_Path trigger_request) \<noteq> []" by (simp add: p)
  have c: "path_Base (req_Path trigger_request) \<noteq> ''trigger-download''" by (simp add: p)
  have l: "IsClientConnected connected_manager (path_Base (req_Path trigger_request))"
    by (simp add: p connected_manager_def IsClientConnected_def RegisterClient_def Let_def)
  let ?bytes = "[0, 17, 34, 51, 68, 85, 102, 119, 136, 153, 170, 187, 204, 221, 238, 255] :: nat list"
  have r: "env_rand example_env = Inr ?bytes" by (simp add: example_env_def)
  have e: "EncodeToString ?bytes = ''00112233445566778899aabbccddeeff''"
    by (simp add: EncodeToString_def hex_digit_def)
  have w: "\<forall>c cmd. env_WriteJSON example_env c cmd = None" by (simp add: example_env_def)
  have s3: "env_s3 example_env = accepting_backend" by (simp add: example_env_def)
  have k: "baseS3Path example_handler @ ''/'' @ path_Base (req_Path trigger_request) @ ''/''
              @ env_timestamp example_env @ ''-''
              @ path_Base (if req_FilePath trigger_request = [] then ''/data/test-file.bin''
                           else req_FilePath trigger_request)
           = ''uploads/agent-1/20261031-120000-test-file.bin''"
    by (simp add: p) (simp add: example_handler_def NewHandler_def example_env_def path_Base_def
          trigger_request_def)
  have i: "fst (InitiateMultipartUpload (s3Client example_handler) (env_s3 example_env)
               \<lparr>cfg_Key = ''uploads/agent-1/20261031-120000-test-file.bin'',
                cfg_FileSize = estimatedFileSize,
                cfg_ChunkSize = chunkSize example_handler,
                cfg_Metadata = req_Metadata trigger_request\<rparr>)
          = Inr \<lparr>mu_UploadID = ''s3-session'', mu_Bucket = ''uploads-bucket'',
            mu_Key = ''uploads/agent-1/20261031-120000-test-file.bin'',
            mu_TotalParts = 20, mu_ChunkSize = 5242880,
            mu_PresignedURLs = map (\<lambda>n. \<lparr>PartNumber = n, URL = ''https://s3/part''\<rparr>) [1..20]\<rparr>"
    unfolding s3 by (rule ex_initiate)
  from TriggerDownload_success[OF a b c l r i k[symmetric] w] show ?thesis
    by (simp add: p e)
qed

text \<open>C9 (counterexample). With 5 MB chunks the ticket issued for a trigger naming a 12 MB
  file has 20 presigned part URLs, while a 12 MB file needs 3 parts.\<close>

theorem ticket_has_20_parts_for_12mb_file:
  "length (snd (snd (snd (TriggerDownload example_handler example_env connected_manager request_12mb)))) = 1
   \<and> req_FilePath request_12mb = ''/data/file-of-12MB.bin''
   \<and> chunkSize example_handler = 5 * 1024 * 1024
   \<and> length (PresignedURLs (dp_UploadConfig (Payload (snd (hd (snd (snd (snd
        (TriggerDownload example_handler example_env connected_manager request_12mb))))))))) = 20
   \<and> total_parts (12 * 1024 * 1024) (5 * 1024 * 1024) = 3"
proof -
  from TriggerDownload_success_sent[OF ex_12mb] obtain c cmd where
    s: "snd (snd (snd (TriggerDownload example_handler example_env connected_manager request_12mb)))
          = [(c, cmd)]" by blast
  then have "(c, cmd) \<in> set (snd (snd (snd (TriggerDownload example_handler example_env
                connected_manager request_12mb))))" by simp
  from TriggerDownload_ticket[OF this]
  have "map PartNumber (PresignedURLs (dp_UploadConfig (Payload cmd))) = [1..20]"
    by (simp add: example_handler_def NewHandler_def total_parts_def go_div_def go_mod_def
          estimatedFileSize_def)
  then have "length (map PartNumber (PresignedURLs (dp_UploadConfig (Payload cmd)))) = 20"
    by simp
  then have n: "length (PresignedURLs (dp_UploadConfig (Payload cmd))) = 20" by simp
  have t: "total_parts (12 * 1024 * 1024) (5 * 1024 * 1024) = 3"
    by (simp add: total_parts_def go_div_def go_mod_def)
  show ?thesis using s n t
    by (simp add: request_12mb_def example_handler_def NewHandler_def)
qed

text \<open>C9 (as amended). Whenever the orchestrator sends a \<open>download_file\<close> command, with a
  positive chunk size, the ticket carries the part numbers \<open>1, ..., n\<close> where \<open>n\<close> is
  100 MB divided by the chunk size, rounded up (20 for 5 MB chunks), whatever the size of
  the file to transfer.\<close>

theorem ticket_sized_for_ceiling:
  assumes "(c, cmd) \<in> set (snd (snd (snd (TriggerDownload h env m r))))"
    and "0 < chunkSize h"
  shows "map PartNumber (PresignedURLs (dp_UploadConfig (Payload cmd)))
           = [1..(100 * 1024 * 1024 + chunkSize h - 1) div chunkSize h]
       \<and> int (length (PresignedURLs (dp_UploadConfig (Payload cmd))))
           = (100 * 1024 * 1024 + chunkSize h - 1) div chunkSize h"
proof -
  have t: "total_parts estimatedFileSize (chunkSize h)
            = (100 * 1024 * 1024 + chunkSize h - 1) div chunkSize h"
    using total_parts_ceil[OF assms(2), of estimatedFileSize] by (simp add: estimatedFileSize_def)
  have a: "map PartNumber (PresignedURLs (dp_UploadConfig (Payload cmd)))
           = [1..(100 * 1024 * 1024 + chunkSize h - 1) div chunkSize h]"
    using TriggerDownload_ticket[OF assms(1)] t by simp
  have p: "0 \<le> (100 * 1024 * 1024 + chunkSize h - 1) div chunkSize h"
    using assms(2) by (simp add: pos_imp_zdiv_nonneg_iff)
  have "length (map PartNumber (PresignedURLs (dp_UploadConfig (Payload cmd))))
          = nat ((100 * 1024 * 1024 + chunkSize h - 1) div chunkSize h)"
    unfolding a by simp
  then have "length (PresignedURLs (dp_UploadConfig (Payload cmd)))
          = nat ((100 * 1024 * 1024 + chunkSize h - 1) div chunkSize h)"
    by simp
  then have "int (length (PresignedURLs (dp_UploadConfig (Payload cmd))))
          = (100 * 1024 * 1024 + chunkSize h - 1) div chunkSize h"
    using p by simp
  then show ?thesis using a by simp
qed

theorem ticket_sized_for_ceiling_witness:
  "(fst (hd (snd (snd (snd (TriggerDownload example_handler example_env connected_manager request_12mb))))),
    snd (hd (snd (snd (snd (TriggerDownload example_handler example_env connected_manager request_12mb))))))
     \<in> set (snd (snd (snd (TriggerDownload example_handler example_env connected_manager request_12mb))))
   \<and> 0 < chunkSize example_handler
   \<and> map PartNumber (PresignedURLs (dp_UploadConfig (Payload (snd (hd (snd (snd (snd
        (TriggerDownload example_handler example_env connected_manager request_12mb)))))))))
       = [1..20]
   \<and> int (length (PresignedURLs (dp_UploadConfig (Payload (snd (hd (snd (snd (snd
        (TriggerDownload example_handler example_env connected_manager request_12mb)))))))))) = 20"
proof -
  let ?S = "snd (snd (snd (TriggerDownload example_handler example_env connected_manager request_12mb)))"
  from TriggerDownload_success_sent[OF ex_12mb] obtain c cmd where s: "?S = [(c, cmd)]" by blast
  have a: "(fst (hd ?S), snd (hd ?S)) \<in> set ?S" unfolding s by simp
  have b: "0 < chunkSize example_handler" by (simp add: example_handler_def NewHandler_def)
  have v: "(100 * 1024 * 1024 + chunkSize example_handler - 1) div chunkSize example_handler = 20"
    by (simp add: example_handler_def NewHandler_def)
  from ticket_sized_for_ceiling[OF a b] a b show ?thesis unfolding v by simp
qed

subsection \<open>C10: the file path of the command\<close>

lemma parse_presigned_json:
  "map ((\<lambda>urlInterface.
          case urlInterface of
            JObj urlMap \<Rightarrow>
              \<lparr>PartNumber = (case map_of urlMap ''part_number'' of Some (JNum n) \<Rightarrow> n | _ \<Rightarrow> 0),
               URL = (case map_of urlMap ''url'' of Some (JStr s) \<Rightarrow> s | _ \<Rightarrow> [])\<rparr>
          | _ \<Rightarrow> \<lparr>PartNumber = 0, URL = []\<rparr>) \<circ> PresignedURL_json) urls = urls"
  by (induction urls) (auto simp: PresignedURL_json_def)

lemma handleDownloadFile_filePath_of_command:
  "handleDownloadFile_filePath hFilePath (DownloadFilePayload_json p)
     = (if uc_UploadID (dp_UploadConfig p) = [] \<or> PresignedURLs (dp_UploadConfig p) = []
        then Inl ''failed to parse upload config: invalid upload config: missing required fields''
        else Inr (if dp_FilePath p \<noteq> [] then dp_FilePath p else hFilePath, dp_UploadConfig p))"
  by (simp add: handleDownloadFile_filePath_def DownloadFilePayload_json_def UploadConfig_json_def
        parseUploadConfig_def parse_presigned_json Let_def error_text_def)

text \<open>C10. In every \<open>download_file\<close> command the orchestrator sends, the file path of
  the payload is the requested path, or \<open>/data/test-file.bin\<close> when the request gave none:
  it is never empty. The agent, decoding that payload, uploads from exactly this path
  whatever its own configured default is (or, for an empty ticket, rejects the command
  before choosing a file).\<close>

theorem command_file_path_never_empty:
  assumes "(c, cmd) \<in> set (snd (snd (snd (TriggerDownload h env m r))))"
  shows "dp_FilePath (Payload cmd)
           = (if req_FilePath r = [] then ''/data/test-file.bin'' else req_FilePath r)
       \<and> dp_FilePath (Payload cmd) \<noteq> []
       \<and> handleDownloadFile_filePath hFilePath (DownloadFilePayload_json (Payload cmd))
           = (if PresignedURLs (dp_UploadConfig (Payload cmd)) = []
              then Inl ''failed to parse upload config: invalid upload config: missing required fields''
              else Inr (dp_FilePath (Payload cmd), dp_UploadConfig (Payload cmd)))"
proof -
  from TriggerDownload_sent[OF assms] obtain uploadID where
    g: "generateUploadID (env_rand env) = Inr uploadID"
    and u: "uc_UploadID (dp_UploadConfig (Payload cmd)) = uploadID"
    and f: "dp_FilePath (Payload cmd)
           = (if req_FilePath r = [] then ''/data/test-file.bin'' else req_FilePath r)"
    by auto
  have n: "dp_FilePath (Payload cmd) \<noteq> []" using f by simp
  have "length uploadID = 32" using g by (rule generateUploadID_length)
  then have "uc_UploadID (dp_UploadConfig (Payload cmd)) \<noteq> []" using u by auto
  then show ?thesis using f n by (simp add: handleDownloadFile_filePath_of_command)
qed

theorem command_file_path_never_empty_witness:
  "(fst (hd (snd (snd (snd (TriggerDownload example_handler example_env connected_manager trigger_request))))),
    snd (hd (snd (snd (snd (TriggerDownload example_handler example_env connected_manager trigger_request))))))
     \<in> set (snd (snd (snd (TriggerDownload example_handler example_env connected_manager trigger_request))))
   \<and> req_FilePath trigger_request = []
   \<and> dp_FilePath (Payload (snd (hd (snd (snd (snd
        (TriggerDownload example_handler example_env connected_manager trigger_request)))))))
       = ''/data/test-file.bin''
   \<and> map_sum id fst (handleDownloadFile_filePath ''/home/agent/default.bin''
        (DownloadFilePayload_json (Payload (snd (hd (snd (snd (snd
           (TriggerDownload example_handler example_env connected_manager trigger_request)))))))))
       = Inr ''/data/test-file.bin''"
proof -
  let ?S = "snd (snd (snd (TriggerDownload example_handler example_env connected_manager trigger_request)))"
  have y: "fst (TriggerDownload example_handler example_env connected_manager trigger_request)
       = TriggerDownloadResponse 200 True ''Download triggered for client agent-1''
           ''00112233445566778899aabbccddeeff'' ''uploads/agent-1/20261031-120000-test-file.bin''"
    using ex_trigger .
  from TriggerDownload_success_sent[OF y] obtain c cmd where s: "?S = [(c, cmd)]" by blast
  have a: "(fst (hd ?S), snd (hd ?S)) \<in> set ?S" unfolding s by simp
  have e: "req_FilePath trigger_request = []" by (simp add: trigger_request_def)
  have t: "map PartNumber (PresignedURLs (dp_UploadConfig (Payload (snd (hd ?S))))) = [1..20]"
    using TriggerDownload_ticket[OF a]
    by (simp add: example_handler_def NewHandler_def total_parts_def go_div_def go_mod_def
          estimatedFileSize_def)
  have ne: "PresignedURLs (dp_UploadConfig (Payload (snd (hd ?S)))) \<noteq> []"
  proof
    assume "PresignedURLs (dp_UploadConfig (Payload (snd (hd ?S)))) = []"
    then have "map PartNumber (PresignedURLs (dp_UploadConfig (Payload (snd (hd ?S))))) = []" by simp
    then show False unfolding t by (simp add: upto_rec1)
  qed
  from command_file_path_never_empty[OF a, where hFilePath = "''/home/agent/default.bin''"] a e ne
  show ?thesis by simp
qed

subsection \<open>C1: a ticket larger than the file\<close>

lemma upload_first: "uploadPart agent_with_12mb_file url body = Inr ''etag''"
  by (simp add: uploadPart_def agent_with_12mb_file_def)

text \<open>C1 (the code at the failing input). The agent holds a file of 12 MB and receives the
  ticket of 20 parts of 5 MB that the orchestrator issues; every part upload is accepted.
  \<open>Upload\<close> uploads parts 1 to 3 and then, at part 4, computes the part size
  \<open>12582912 - 15728640\<close> and panics when allocating the buffer: it returns no digest
  map.\<close>

theorem Upload_panics_past_end_of_file:
  "Upload agent_with_12mb_file ''/data/file-of-12MB.bin'' ticket_of_20_parts
     = (Inl (Panic ''makeslice: len out of range''),
        [(''https://s3/part'', replicate 5242880 0), (''https://s3/part'', replicate 5242880 0),
         (''https://s3/part'', replicate 2097152 0)],
        [(1, 20, 5242880, 12582912), (2, 20, 10485760, 12582912), (3, 20, 12582912, 12582912)])"
proof -
  have l: "[1..20] = 1 # 2 # 3 # 4 # [5..20::int]" by (simp add: upto_rec1)
  have o: "os_Open agent_with_12mb_file p = Inr (replicate 12582912 0)" for p
    by (simp add: agent_with_12mb_file_def)
  have st: "file_Stat_error agent_with_12mb_file p = None" for p
    by (simp add: agent_with_12mb_file_def)
  show ?thesis
    by (simp add: Upload_def o st ticket_of_20_parts_def l Let_def wrap64_def ReadAt_def upload_first)
qed

text \<open>The same for every file and ticket: when the ticket numbers its parts \<open>1, ..., n\<close>
  and its last part begins beyond the end of the file, \<open>Upload\<close> panics, however the
  part uploads before are answered.\<close>

lemma upload_parts_panic:
  assumes "0 < uc_ChunkSize cfg" and "uc_ChunkSize cfg * n < 2 ^ 62"
    and "\<forall>url body. \<exists>etag. uploadPart env url body = Inr etag"
    and "int (length content) < (n - 1) * uc_ChunkSize cfg"
    and "map PartNumber ps = [i..n]" and "1 \<le> i" and "i \<le> n"
  shows "fst (upload_parts env cfg content tp ps etags b) = Inl (Panic ''makeslice: len out of range'')"
  using assms(5,6,7)
proof (induction ps arbitrary: i etags b)
  case Nil
  then show ?case by simp
next
  case (Cons p ps)
  let ?c = "uc_ChunkSize cfg"
  let ?fs = "int (length content)"
  from Cons.prems have pn: "PartNumber p = i" and rest: "map PartNumber ps = [i + 1..n]"
    by (simp_all add: upto_rec1)
  have b1: "0 \<le> (i - 1) * ?c" using Cons.prems assms(1) by simp
  have "(i - 1) * ?c \<le> (n - 1) * ?c" using Cons.prems assms(1) by (intro mult_right_mono) auto
  also have "\<dots> \<le> n * ?c" using assms(1) by (simp add: algebra_simps)
  finally have b2: "(i - 1) * ?c < 2 ^ 62" using assms(2) by (simp add: mult.commute)
  have c62: "?c < 2 ^ 62"
  proof -
    have "1 \<le> n" using Cons.prems by linarith
    then have "?c * 1 \<le> ?c * n" using assms(1) by (intro mult_left_mono) auto
    then show ?thesis using assms(2) by simp
  qed
  have w1: "wrap64 (i - 1) = i - 1"
  proof -
    have "i \<le> n * 1" using Cons.prems by simp
    also have "\<dots> \<le> n * ?c" using assms(1) Cons.prems by (intro mult_left_mono) auto
    finally have "i < 2 ^ 62" using assms(2) by (simp add: mult.commute)
    then show ?thesis using Cons.prems by (intro wrap64_id) auto
  qed
  have w2: "wrap64 ((i - 1) * ?c) = (i - 1) * ?c" using b1 b2 by (intro wrap64_id) auto
  have w3: "wrap64 ((i - 1) * ?c + ?c) = (i - 1) * ?c + ?c"
    using b1 b2 c62 assms(1) by (intro wrap64_id) auto
  have fsb: "?fs < 2 ^ 62"
  proof -
    have "(n - 1) * ?c \<le> n * ?c" using assms(1) by (simp add: algebra_simps)
    then show ?thesis using assms(2,4) by (simp add: mult.commute)
  qed
  have w4: "wrap64 (?fs - (i - 1) * ?c) = ?fs - (i - 1) * ?c"
    using b1 b2 fsb by (intro wrap64_id) auto
  have up: "\<exists>e. uploadPart env (URL p) body = Inr e" for body
    using assms(3) by blast
  show ?case
  proof (cases "?fs - (i - 1) * ?c < 0")
    case True
    then have "(i - 1) * ?c + ?c > ?fs" using assms(1) by linarith
    then show ?thesis using True by (simp add: pn w1 w2 w3 w4 Let_def)
  next
    case False
    then have le: "(i - 1) * ?c \<le> ?fs" by simp
    have "i < n"
    proof (rule ccontr)
      assume "\<not> i < n"
      then have "i = n" using Cons.prems by simp
      then show False using le assms(4) by simp
    qed
    then have i1: "1 \<le> i + 1" "i + 1 \<le> n" using Cons.prems by auto
    note ih = Cons.IH[OF rest i1]
    let ?ps = "if (i - 1) * ?c + ?c > ?fs then ?fs - (i - 1) * ?c else ?c"
    have nn: "\<not> ?ps < 0" using False assms(1) by auto
    have ra: "\<exists>d. ReadAt content (nat ?ps) ((i - 1) * ?c) = Inr d"
      using b1 by (simp add: ReadAt_def Let_def)
    then obtain d where d: "ReadAt content (nat ?ps) ((i - 1) * ?c) = Inr d" by blast
    obtain e where e: "uploadPart env (URL p) d = Inr e" using up by blast
    show ?thesis
      using nn d e ih
      by (simp add: pn w1 w2 w3 w4 Let_def split_beta split: if_splits)
  qed
qed

lemma Upload_panics_when_ticket_exceeds_file:
  assumes "os_Open env path = Inr content" and "file_Stat_error env path = None"
    and "\<forall>url body. \<exists>etag. uploadPart env url body = Inr etag"
    and "0 < uc_ChunkSize cfg" and "uc_ChunkSize cfg * n < 2 ^ 62"
    and "map PartNumber (PresignedURLs cfg) = [1..n]" and "1 \<le> n"
    and "int (length content) < (n - 1) * uc_ChunkSize cfg"
  shows "fst (Upload env path cfg) = Inl (Panic ''makeslice: len out of range'')"
proof -
  have "fst (upload_parts env cfg content (int (length (PresignedURLs cfg))) (PresignedURLs cfg)
          fmempty 0) = Inl (Panic ''makeslice: len out of range'')"
    using upload_parts_panic[OF assms(4,5,3,8,6) _ assms(7)] by simp
  then show ?thesis using assms(1,2)
    by (simp add: Upload_def Let_def split_beta)
qed

end
